theory Spec2Isabelle
  imports Complex_Main "HOL-Library.Multiset"
begin

section \<open>Turtle3D: a shallow embedding of the rendering pipeline\<close>

text \<open>
  The embedding follows \<^verbatim>\<open>src/Turtle3D.py\<close>. Python floats are modelled by
  the reals (so rounding is idealised away), Python exceptions by the left
  summand of a sum type, in-place mutation by functions that return the
  updated value, and the class-wide registries by explicit lists that are
  passed in and returned.

  A vertex, a position, a rotation and a scale are three-element Python
  lists \<^verbatim>\<open>[x, y, z]\<close>; an RGB colour is a three-element tuple. Each is
  modelled as a triple of reals.
\<close>

subsection \<open>Exceptions\<close>

datatype error =
    TypeError
  | IndexError
  | ZeroDivisionError
  | Turtle3DError string
  | DuplicateNameError string
  | AlreadyInSceneError string
  | IDNotFoundError nat
  | NoActiveCamera string
  | NoScenePermission string string

text \<open>
  \<^verbatim>\<open>DuplicateNameError.__init__(self, name, message=...)\<close> has a required
  positional parameter \<^verbatim>\<open>name\<close>. Evaluating the expression
  \<^verbatim>\<open>DuplicateNameError(...)\<close> therefore yields the exception to raise only
  when a name is passed; with no argument the call itself raises
  \<^verbatim>\<open>TypeError\<close>, and that is the exception that propagates.
\<close>

fun new_DuplicateNameError :: "string option \<Rightarrow> error" where
  "new_DuplicateNameError None = TypeError"
| "new_DuplicateNameError (Some name) = DuplicateNameError name"

definition ebind :: "error + 'a \<Rightarrow> ('a \<Rightarrow> error + 'b) \<Rightarrow> error + 'b" where
  "ebind m f = (case m of Inl e \<Rightarrow> Inl e | Inr x \<Rightarrow> f x)"

text \<open>A list comprehension or loop whose body may raise: the first exception wins.\<close>

fun emap :: "('a \<Rightarrow> error + 'b) \<Rightarrow> 'a list \<Rightarrow> error + 'b list" where
  "emap f [] = Inr []"
| "emap f (x # xs) =
     (case f x of
        Inl e \<Rightarrow> Inl e
      | Inr y \<Rightarrow> (case emap f xs of Inl e \<Rightarrow> Inl e | Inr ys \<Rightarrow> Inr (y # ys)))"

subsection \<open>Vectors and Python truthiness\<close>

type_synonym vec3 = "real \<times> real \<times> real"

text \<open>
  An optional numeric argument \<^verbatim>\<open>x: float = None\<close> tested by \<^verbatim>\<open>if x:\<close>:
  the test fails for \<^verbatim>\<open>None\<close> and for zero.
\<close>

fun truthy :: "real option \<Rightarrow> bool" where
  "truthy None = False"
| "truthy (Some x) = (x \<noteq> 0)"

text \<open>
  The value of an optional numeric argument where it is read; every read is
  guarded by \<^const>\<open>truthy\<close>, so the \<^verbatim>\<open>None\<close> case is never reached.
\<close>

fun arg_val :: "real option \<Rightarrow> real" where
  "arg_val None = 0"
| "arg_val (Some x) = x"

text \<open>\<^verbatim>\<open>math.radians\<close>.\<close>

definition radians :: "real \<Rightarrow> real" where
  "radians a = a * (pi / 180)"

subsection \<open>Material\<close>

record material =
  mat_name :: string
  ambient_color :: vec3
  diffuse_color :: vec3
  specular_color :: vec3
  specular_coefficient :: real

definition Material_init ::
  "string \<Rightarrow> vec3 option \<Rightarrow> vec3 option \<Rightarrow> vec3 option \<Rightarrow> real option \<Rightarrow> material" where
  "Material_init name ambient diffuse specular coefficient =
     \<lparr> mat_name = name,
       ambient_color = (case ambient of None \<Rightarrow> (255, 255, 255) | Some c \<Rightarrow> c),
       diffuse_color = (case diffuse of None \<Rightarrow> (255, 255, 255) | Some c \<Rightarrow> c),
       specular_color = (case specular of None \<Rightarrow> (255, 255, 255) | Some c \<Rightarrow> c),
       specular_coefficient = (if truthy coefficient then arg_val coefficient else 10) \<rparr>"

subsection \<open>Light\<close>

text \<open>
  \<^verbatim>\<open>_next_memory_id\<close> is a class attribute; \<^verbatim>\<open>self._next_memory_id += 1\<close>
  binds an attribute of the instance and leaves the class attribute at 1,
  so \<^verbatim>\<open>self._id\<close> is read as 1 at every construction.
\<close>

record light =
  light_name :: string
  light_position :: vec3
  light_color :: vec3
  light_intensity :: real
  light_id :: nat

text \<open>
  \<^verbatim>\<open>Light.__init__\<close>; the first argument is the class-wide list
  \<^verbatim>\<open>_global_light_memory\<close>, returned with the new light appended.
\<close>

definition Light_init ::
  "light list \<Rightarrow> string \<Rightarrow> vec3 \<Rightarrow> vec3 option \<Rightarrow> real option \<Rightarrow> error + (light \<times> light list)" where
  "Light_init global_light_memory name position color intensity =
     (if list_ex (\<lambda>l. light_name l = name) global_light_memory
      then Inl (new_DuplicateNameError None)
      else
        let self = \<lparr> light_name = name,
                     light_position = position,
                     light_color = (case color of None \<Rightarrow> (255, 255, 255) | Some c \<Rightarrow> c),
                     light_intensity = (if truthy intensity then arg_val intensity else 1),
                     light_id = 1 \<rparr>
        in Inr (self, global_light_memory @ [self]))"

subsection \<open>Camera\<close>

text \<open>
  A clamp is a two-element list \<^verbatim>\<open>[min, max]\<close> or \<^verbatim>\<open>None\<close>;
  \<^verbatim>\<open>rotation_order\<close> is a list of the strings \<^verbatim>\<open>'x'\<close>, \<^verbatim>\<open>'y'\<close>, \<^verbatim>\<open>'z'\<close>.
\<close>

record camera =
  cam_name :: string
  cam_position :: vec3
  cam_rotation :: vec3
  fov :: real
  near_plane :: real
  far_plane :: real
  rotation_order :: "string list"
  x_clamp :: "(real \<times> real) option"
  y_clamp :: "(real \<times> real) option"
  z_clamp :: "(real \<times> real) option"
  cam_id :: nat

definition Camera_init ::
  "camera list \<Rightarrow> string \<Rightarrow> vec3 option \<Rightarrow> vec3 option \<Rightarrow> real option \<Rightarrow> real option \<Rightarrow>
   real option \<Rightarrow> string list option \<Rightarrow> (real \<times> real) option \<Rightarrow> (real \<times> real) option \<Rightarrow>
   (real \<times> real) option \<Rightarrow> error + (camera \<times> camera list)" where
  "Camera_init global_memory name position rotation fov_arg near_arg far_arg order_arg
     x_clamp_arg y_clamp_arg z_clamp_arg =
     (let position = (case position of None \<Rightarrow> (0, 0, 0) | Some p \<Rightarrow> p);
          rotation = (case rotation of None \<Rightarrow> (0, 0, 0) | Some r \<Rightarrow> r);
          fov_v = (case fov_arg of None \<Rightarrow> 60 | Some f \<Rightarrow> f);
          near_v = (case near_arg of None \<Rightarrow> 1 / 10 | Some n \<Rightarrow> n);
          far_v = (case far_arg of None \<Rightarrow> 1000 | Some f \<Rightarrow> f);
          order_v = (case order_arg of None \<Rightarrow> [''y'', ''x'', ''z''] | Some ord \<Rightarrow> ord);
          x_clamp_v = (if x_clamp_arg = None then None else x_clamp_arg);
          z_clamp_v = (if y_clamp_arg = None then None else z_clamp_arg);
          z_clamp_v = (if z_clamp_v = None then None else z_clamp_v)
      in if list_ex (\<lambda>c. cam_name c = name) global_memory
         then Inl (new_DuplicateNameError None)
         else
           let self = \<lparr> cam_name = name, cam_position = position, cam_rotation = rotation,
                        fov = fov_v, near_plane = near_v, far_plane = far_v,
                        rotation_order = order_v, x_clamp = x_clamp_v,
                        y_clamp = y_clamp_arg, z_clamp = z_clamp_v, cam_id = 1 \<rparr>
           in Inr (self, global_memory @ [self]))"

text \<open>
  The clamp of \<^verbatim>\<open>set_rotation\<close>:
  \<^verbatim>\<open>if v < c[0]: v = c[0]  elif v > c[1]: v = c[1]\<close>, applied only when a
  clamp is configured.
\<close>

fun clamp_abs :: "(real \<times> real) option \<Rightarrow> real \<Rightarrow> real" where
  "clamp_abs None v = v"
| "clamp_abs (Some (lo, hi)) v = (if v < lo then lo else if v > hi then hi else v)"

text \<open>
  \<^verbatim>\<open>Camera.set_rotation\<close>. The three \<^verbatim>\<open>if\<close> blocks run in sequence on the
  same list; the third one assigns \<^verbatim>\<open>self._rotation[0] = z\<close>.
\<close>

definition Camera_set_rotation ::
  "camera \<Rightarrow> real option \<Rightarrow> real option \<Rightarrow> real option \<Rightarrow> camera" where
  "Camera_set_rotation self x y z =
     (let r0 = cam_rotation self;
          r1 = (if truthy x
                then (case r0 of (rx, ry, rz) \<Rightarrow> (clamp_abs (x_clamp self) (arg_val x), ry, rz))
                else r0);
          r2 = (if truthy y
                then (case r1 of (rx, ry, rz) \<Rightarrow> (rx, clamp_abs (y_clamp self) (arg_val y), rz))
                else r1);
          r3 = (if truthy z
                then (case r2 of (rx, ry, rz) \<Rightarrow> (clamp_abs (z_clamp self) (arg_val z), ry, rz))
                else r2)
      in self\<lparr>cam_rotation := r3\<rparr>)"

text \<open>
  The clamp of \<^verbatim>\<open>rotate\<close>, on the increment:
  \<^verbatim>\<open>if d + r < c[0]: d = c[0] - r  elif d + r > c[1]: d = c[1] - r\<close>.
\<close>

fun clamp_delta :: "(real \<times> real) option \<Rightarrow> real \<Rightarrow> real \<Rightarrow> real" where
  "clamp_delta None r d = d"
| "clamp_delta (Some (lo, hi)) r d =
     (if d + r < lo then lo - r else if d + r > hi then hi - r else d)"

definition Camera_rotate ::
  "camera \<Rightarrow> real option \<Rightarrow> real option \<Rightarrow> real option \<Rightarrow> camera" where
  "Camera_rotate self x y z =
     (let r0 = cam_rotation self;
          r1 = (if truthy x
                then (case r0 of (rx, ry, rz) \<Rightarrow>
                        (rx + clamp_delta (x_clamp self) rx (arg_val x), ry, rz))
                else r0);
          r2 = (if truthy y
                then (case r1 of (rx, ry, rz) \<Rightarrow>
                        (rx, ry + clamp_delta (y_clamp self) ry (arg_val y), rz))
                else r1);
          r3 = (if truthy z
                then (case r2 of (rx, ry, rz) \<Rightarrow>
                        (rx, ry, rz + clamp_delta (z_clamp self) rz (arg_val z)))
                else r2)
      in self\<lparr>cam_rotation := r3\<rparr>)"

definition Camera_set_position ::
  "camera \<Rightarrow> real option \<Rightarrow> real option \<Rightarrow> real option \<Rightarrow> camera" where
  "Camera_set_position self x y z =
     (let p0 = cam_position self;
          p1 = (if truthy x then (case p0 of (px, py, pz) \<Rightarrow> (arg_val x, py, pz)) else p0);
          p2 = (if truthy y then (case p1 of (px, py, pz) \<Rightarrow> (px, arg_val y, pz)) else p1);
          p3 = (if truthy z then (case p2 of (px, py, pz) \<Rightarrow> (px, py, arg_val z)) else p2)
      in self\<lparr>cam_position := p3\<rparr>)"

subsection \<open>Axis rotations about a pivot\<close>

text \<open>
  \<^verbatim>\<open>Object._rotate_x\<close>, \<^verbatim>\<open>_rotate_y\<close>, \<^verbatim>\<open>_rotate_z\<close> (the leading
  underscore is dropped). Each overwrites two coordinates of every vertex of
  the array in place; the model returns the array after the loop.
\<close>

definition rotate_x :: "real \<Rightarrow> vec3 list \<Rightarrow> vec3 \<Rightarrow> vec3 list" where
  "rotate_x angle vertex_array pivot =
     (let angle = radians angle;
          sinTheata = sin angle;
          cosTheata = cos angle;
          py = fst (snd pivot);
          pz = snd (snd pivot)
      in map (\<lambda>(vx, vy, vz).
                let y = vy - py;
                    z = vz - pz;
                    new_y = y * cosTheata + z * sinTheata;
                    new_z = z * cosTheata - y * sinTheata
                in (vx, new_y + py, new_z + pz)) vertex_array)"

definition rotate_y :: "real \<Rightarrow> vec3 list \<Rightarrow> vec3 \<Rightarrow> vec3 list" where
  "rotate_y angle vertex_array pivot =
     (let angle = radians angle;
          sinTheata = sin angle;
          cosTheata = cos angle;
          px = fst pivot;
          pz = snd (snd pivot)
      in map (\<lambda>(vx, vy, vz).
                let x = vx - px;
                    z = vz - pz;
                    new_x = x * cosTheata + z * sinTheata;
                    new_z = z * cosTheata - x * sinTheata
                in (new_x + px, vy, new_z + pz)) vertex_array)"

definition rotate_z :: "real \<Rightarrow> vec3 list \<Rightarrow> vec3 \<Rightarrow> vec3 list" where
  "rotate_z angle vertex_array pivot =
     (let angle = radians angle;
          sinTheata = sin angle;
          cosTheata = cos angle;
          px = fst pivot;
          py = fst (snd pivot)
      in map (\<lambda>(vx, vy, vz).
                let x = vx - px;
                    y = vy - py;
                    new_x = x * cosTheata + y * sinTheata;
                    new_y = y * cosTheata - x * sinTheata
                in (new_x + px, new_y + py, vz)) vertex_array)"

subsection \<open>Object\<close>

text \<open>
  The scratch attributes \<^verbatim>\<open>_camera_perspective_vertex_array\<close> and
  \<^verbatim>\<open>_face_normals\<close> are overwritten from the other fields before every
  read, so they are values computed by functions below rather than fields.
  Face entries are Python integers, 1-based by the \<^verbatim>\<open>.obj\<close> convention.
\<close>

record object3d =
  obj_name :: string
  face_array :: "int list list"
  original_vertex_array :: "vec3 list"
  transformed_vertex_array :: "vec3 list"
  translated_vertex_array :: "vec3 list"
  obj_position :: vec3
  obj_rotation :: vec3
  obj_scale :: vec3
  obj_material :: material
  visible :: bool
  obj_id :: nat

definition update_translated_vertices :: "object3d \<Rightarrow> object3d" where
  "update_translated_vertices self =
     self\<lparr>translated_vertex_array :=
            map (\<lambda>(vx, vy, vz).
                   (case obj_position self of (px, py, pz) \<Rightarrow> (vx + px, vy + py, vz - pz)))
                (transformed_vertex_array self)\<rparr>"

definition update_transformed_vertices :: "object3d \<Rightarrow> object3d" where
  "update_transformed_vertices self =
     (case obj_scale self of (sx, sy, sz) \<Rightarrow>
      case obj_rotation self of (rx, ry, rz) \<Rightarrow>
        let t0 = map (\<lambda>(x, y, z). (x * sx, y * sy, z * sz)) (original_vertex_array self);
            t1 = rotate_x rx t0 (0, 0, 0);
            t2 = rotate_y ry t1 (0, 0, 0);
            t3 = rotate_z rz t2 (0, 0, 0)
        in update_translated_vertices (self\<lparr>transformed_vertex_array := t3\<rparr>))"

text \<open>\<^verbatim>\<open>_center_vertex_array\<close>; \<^verbatim>\<open>current_centroid\<close> defaults to the computed centroid.\<close>

definition center_vertex_array :: "vec3 list \<Rightarrow> vec3 \<Rightarrow> vec3 option \<Rightarrow> vec3 list" where
  "center_vertex_array vertex_array new_centroid current_centroid =
     (let num_vertices = length vertex_array
      in if num_vertices = 0 then []
         else
           let current_centroid =
                 (case current_centroid of
                    Some c \<Rightarrow> c
                  | None \<Rightarrow>
                      (sum_list (map fst vertex_array) / real num_vertices,
                       sum_list (map (fst \<circ> snd) vertex_array) / real num_vertices,
                       sum_list (map (snd \<circ> snd) vertex_array) / real num_vertices));
               dx = fst new_centroid - fst current_centroid;
               dy = fst (snd new_centroid) - fst (snd current_centroid);
               dz = snd (snd new_centroid) - snd (snd current_centroid)
           in map (\<lambda>(vx, vy, vz). (vx + dx, vy + dy, vz + dz)) vertex_array)"

text \<open>The \<^verbatim>\<open>scale\<close> argument of the constructor: a number or a three-element list.\<close>

datatype scale_arg = Uniform real | PerAxis vec3

text \<open>
  \<^verbatim>\<open>Object.__init__\<close>. With no material the default \<^verbatim>\<open>Material()\<close> is
  evaluated, which lacks the required \<^verbatim>\<open>name\<close> and raises \<^verbatim>\<open>TypeError\<close>.
\<close>

definition Object_init ::
  "object3d list \<Rightarrow> string \<Rightarrow> vec3 list \<Rightarrow> int list list \<Rightarrow> vec3 option \<Rightarrow> vec3 option \<Rightarrow>
   scale_arg option \<Rightarrow> material option \<Rightarrow> bool option \<Rightarrow> error + (object3d \<times> object3d list)" where
  "Object_init global_memory name vertex_array faces position rotation scale mat vis =
     (let position = (case position of None \<Rightarrow> (0, 0, 0) | Some p \<Rightarrow> p);
          rotation = (case rotation of None \<Rightarrow> (0, 0, 0) | Some r \<Rightarrow> r);
          scale = (case scale of None \<Rightarrow> PerAxis (1, 1, 1) | Some s \<Rightarrow> s)
      in case mat of
           None \<Rightarrow> Inl TypeError
         | Some mat \<Rightarrow>
             let vis = (case vis of None \<Rightarrow> True | Some b \<Rightarrow> b);
                 vertex_array = center_vertex_array vertex_array (0, 0, 0) None
             in if list_ex (\<lambda>obj. obj_name obj = name) global_memory
                then Inl (new_DuplicateNameError None)
                else
                  let position = (case position of (px, py, pz) \<Rightarrow> (px, py, 0 - pz));
                      scale = (case scale of Uniform s \<Rightarrow> (s, s, s) | PerAxis v \<Rightarrow> v);
                      self = update_transformed_vertices
                               \<lparr> obj_name = name, face_array = faces,
                                 original_vertex_array = vertex_array,
                                 transformed_vertex_array = vertex_array,
                                 translated_vertex_array = vertex_array,
                                 obj_position = position, obj_rotation = rotation,
                                 obj_scale = scale, obj_material = mat, visible = vis,
                                 obj_id = 1 \<rparr>
                  in Inr (self, global_memory @ [self]))"

definition Object_set_rotation ::
  "object3d \<Rightarrow> real option \<Rightarrow> real option \<Rightarrow> real option \<Rightarrow> object3d" where
  "Object_set_rotation self x y z =
     (let r0 = obj_rotation self;
          r1 = (if truthy x then (case r0 of (rx, ry, rz) \<Rightarrow> (arg_val x, ry, rz)) else r0);
          r2 = (if truthy y then (case r1 of (rx, ry, rz) \<Rightarrow> (rx, arg_val y, rz)) else r1);
          r3 = (if truthy z then (case r2 of (rx, ry, rz) \<Rightarrow> (rx, ry, arg_val z)) else r2)
      in update_transformed_vertices (self\<lparr>obj_rotation := r3\<rparr>))"

definition Object_set_position ::
  "object3d \<Rightarrow> real option \<Rightarrow> real option \<Rightarrow> real option \<Rightarrow> object3d" where
  "Object_set_position self x y z =
     (let p0 = obj_position self;
          p1 = (if truthy x then (case p0 of (px, py, pz) \<Rightarrow> (arg_val x, py, pz)) else p0);
          p2 = (if truthy y then (case p1 of (px, py, pz) \<Rightarrow> (px, arg_val y, pz)) else p1);
          p3 = (if truthy z then (case p2 of (px, py, pz) \<Rightarrow> (px, py, arg_val z)) else p2)
      in update_transformed_vertices (self\<lparr>obj_position := p3\<rparr>))"

subsection \<open>Camera space and the distance to the camera\<close>

text \<open>
  One iteration of \<^verbatim>\<open>for step in camera.rotation_order\<close>; a step that is
  none of \<^verbatim>\<open>'x'\<close>, \<^verbatim>\<open>'y'\<close>, \<^verbatim>\<open>'z'\<close> changes nothing.
\<close>

definition camera_step :: "camera \<Rightarrow> vec3 list \<Rightarrow> string \<Rightarrow> vec3 list" where
  "camera_step cam vertex_array step =
     (case cam_rotation cam of (rx, ry, rz) \<Rightarrow>
        if step = ''x'' then rotate_x (- rx) vertex_array (cam_position cam)
        else if step = ''y'' then rotate_y (- ry) vertex_array (cam_position cam)
        else if step = ''z'' then rotate_z (- rz) vertex_array (cam_position cam)
        else vertex_array)"

text \<open>The value given to \<^verbatim>\<open>_camera_perspective_vertex_array\<close>.\<close>

definition camera_perspective_vertex_array :: "object3d \<Rightarrow> camera \<Rightarrow> vec3 list" where
  "camera_perspective_vertex_array self cam =
     foldl (camera_step cam) (translated_vertex_array self) (rotation_order cam)"

definition vertex_distance :: "vec3 \<Rightarrow> vec3 \<Rightarrow> real" where
  "vertex_distance camera_position vertex =
     (case camera_position of (x1, y1, z1) \<Rightarrow>
      case vertex of (x2, y2, z2) \<Rightarrow>
        let dx = (x2 - x1)\<^sup>2; dy = (y2 - y1)\<^sup>2; dz = (z2 - z1)\<^sup>2
        in sqrt (dx + dy + dz))"

text \<open>\<^verbatim>\<open>distances.sort(); return distances[0]\<close> raises on an empty list.\<close>

definition get_distance_to_camera :: "object3d \<Rightarrow> camera \<Rightarrow> error + real" where
  "get_distance_to_camera self cam =
     (let distances = map (vertex_distance (cam_position cam))
                          (camera_perspective_vertex_array self cam)
      in case sort distances of [] \<Rightarrow> Inl IndexError | d # ds \<Rightarrow> Inr d)"

subsection \<open>Rendering one object\<close>

text \<open>
  Python list indexing with an integer: a negative index counts from the
  end, and an index outside \<^verbatim>\<open>[-len, len)\<close> raises \<^verbatim>\<open>IndexError\<close>.
\<close>

definition py_index :: "'a list \<Rightarrow> int \<Rightarrow> error + 'a" where
  "py_index xs i =
     (if 0 \<le> i \<and> i < int (length xs) then Inr (xs ! nat i)
      else if - int (length xs) \<le> i \<and> i < 0 then Inr (xs ! nat (int (length xs) + i))
      else Inl IndexError)"

text \<open>What the drawing surface receives: a closed outline or a filled polygon.\<close>

datatype draw_call =
    Polyline "(real \<times> real) list" vec3
  | FilledPolygon "(real \<times> real) list" "int \<times> int \<times> int"

text \<open>
  A loop whose body draws and may raise: the calls drawn before the
  exception stay drawn, and the exception ends the loop.
\<close>

fun run_loop :: "('a \<Rightarrow> draw_call list \<times> error option) \<Rightarrow> 'a list \<Rightarrow> draw_call list \<times> error option" where
  "run_loop body [] = ([], None)"
| "run_loop body (x # xs) =
     (case body x of
        (cs, Some e) \<Rightarrow> (cs, Some e)
      | (cs, None) \<Rightarrow> (case run_loop body xs of (ds, r) \<Rightarrow> (cs @ ds, r)))"

definition normalize_vector :: "vec3 \<Rightarrow> vec3" where
  "normalize_vector vector =
     (case vector of (v0, v1, v2) \<Rightarrow>
        let norm = sqrt (v0\<^sup>2 + v1\<^sup>2 + v2\<^sup>2)
        in if norm < 1 / 1000000 then (0, 0, 0)
           else (v0 / norm, v1 / norm, v2 / norm))"

text \<open>\<^verbatim>\<open>calculate_normal\<close> reads elements 0, 1 and 2 of its argument.\<close>

fun calculate_normal :: "vec3 list \<Rightarrow> error + vec3" where
  "calculate_normal ((a0, a1, a2) # (b0, b1, b2) # (c0, c1, c2) # rest) =
     (let u0 = b0 - a0; u1 = b1 - a1; u2 = b2 - a2;
          v0 = c0 - a0; v1 = c1 - a1; v2 = c2 - a2
      in Inr (normalize_vector (u1 * v2 - u2 * v1, u2 * v0 - u0 * v2, u0 * v1 - u1 * v0)))"
| "calculate_normal _ = Inl IndexError"

text \<open>
  \<^verbatim>\<open>precompute_normals\<close>: the value given to \<^verbatim>\<open>self._face_normals\<close>. The
  vertices are read from \<^verbatim>\<open>self._translated_vertex_array\<close>.
\<close>

definition precompute_normals :: "object3d \<Rightarrow> error + vec3 list" where
  "precompute_normals self =
     emap (\<lambda>face.
             ebind (emap (\<lambda>i. py_index (translated_vertex_array self) (i - 1)) face)
                   (\<lambda>face_vertices. calculate_normal (take 3 face_vertices)))
          (face_array self)"

text \<open>
  \<^verbatim>\<open>perspective_transform\<close>, with the variables it closes over as arguments.
  A float division by zero raises \<^verbatim>\<open>ZeroDivisionError\<close>. The tangent is
  the real one: at odd multiples of 180 degrees, where it has a pole,
  \<^const>\<open>tan\<close> is 0 in HOL while the float tangent is a large finite number.
\<close>

definition perspective_transform ::
  "camera \<Rightarrow> real \<Rightarrow> int \<Rightarrow> int \<Rightarrow> vec3 \<Rightarrow> error + (real \<times> real) option" where
  "perspective_transform cam aspect_ratio window_width window_height vert =
     (let fov_rad = radians (fov cam);
          half_width = tan (fov_rad / 2)
      in if aspect_ratio = 0 then Inl ZeroDivisionError
         else
           let half_height = half_width / aspect_ratio;
               x_offset = fst vert - fst (cam_position cam);
               y_offset = fst (snd vert) - fst (snd (cam_position cam));
               z_offset = snd (snd vert) - snd (snd (cam_position cam))
           in if z_offset \<le> near_plane cam then Inr None
              else if z_offset > far_plane cam then Inr None
              else if z_offset * half_width = 0 then Inl ZeroDivisionError
              else
                let x_proj = x_offset / (z_offset * half_width)
                in if z_offset * half_height = 0 then Inl ZeroDivisionError
                   else
                     let y_proj = y_offset / (z_offset * half_height);
                         x_ndc = x_proj * 2 - 1;
                         y_ndc = 1 - y_proj * 2;
                         x_screen = (x_ndc + 1) / 2 * real_of_int window_width;
                         y_screen = (1 - y_ndc) / 2 * real_of_int window_height
                     in Inr (Some (x_screen, y_screen)))"

text \<open>
  Float exponentiation \<^verbatim>\<open>b ** e\<close> for a base that is not negative (the only
  call passes \<^verbatim>\<open>max(..., 0)\<close>): a zero base with a negative exponent raises
  \<^verbatim>\<open>ZeroDivisionError\<close>, and \<^verbatim>\<open>0 ** 0\<close> is 1.
\<close>

definition py_pow :: "real \<Rightarrow> real \<Rightarrow> error + real" where
  "py_pow b e =
     (if b = 0 then (if e < 0 then Inl ZeroDivisionError else if e = 0 then Inr 1 else Inr 0)
      else Inr (b powr e))"

definition dot3 :: "vec3 \<Rightarrow> vec3 \<Rightarrow> real" where
  "dot3 a b = (case a of (a0, a1, a2) \<Rightarrow> case b of (b0, b1, b2) \<Rightarrow> a0 * b0 + a1 * b1 + a2 * b2)"

text \<open>One iteration of \<^verbatim>\<open>for light in lights\<close> of \<^verbatim>\<open>compute_lighting\<close>.\<close>

definition light_step ::
  "vec3 list \<Rightarrow> vec3 \<Rightarrow> vec3 \<Rightarrow> material \<Rightarrow> vec3 \<Rightarrow> light \<Rightarrow> error + vec3" where
  "light_step face_vertices normalized_normal camera_position mat color lt =
     (case face_vertices of
        [] \<Rightarrow> Inl IndexError
      | (f0, f1, f2) # rest \<Rightarrow>
          (case light_position lt of (l0, l1, l2) \<Rightarrow>
           case normalized_normal of (n0, n1, n2) \<Rightarrow>
           case camera_position of (c0, c1, c2) \<Rightarrow>
           case light_color lt of (lc0, lc1, lc2) \<Rightarrow>
           case diffuse_color mat of (d0, d1, d2) \<Rightarrow>
           case specular_color mat of (s0, s1, s2) \<Rightarrow>
           case color of (col0, col1, col2) \<Rightarrow>
             let light_dir = (l0 - f0, l1 - f1, l2 - f2);
                 light_distance = sqrt ((l0 - f0)\<^sup>2 + (l1 - f1)\<^sup>2 + (l2 - f2)\<^sup>2);
                 normalized_light_dir = normalize_vector light_dir;
                 dot_product = max (dot3 normalized_normal normalized_light_dir) 0;
                 diffuse_intensity = dot_product * light_intensity lt;
                 diffuse = (d0 * diffuse_intensity * lc0 / 255,
                            d1 * diffuse_intensity * lc1 / 255,
                            d2 * diffuse_intensity * lc2 / 255)
             in case normalized_light_dir of (nl0, nl1, nl2) \<Rightarrow>
                let reflect_dir = (2 * n0 * dot_product - nl0,
                                   2 * n1 * dot_product - nl1,
                                   2 * n2 * dot_product - nl2);
                    normalized_reflect_dir = normalize_vector reflect_dir;
                    view_dir = normalize_vector (c0 - f0, c1 - f1, c2 - f2);
                    spec_angle = max (dot3 normalized_reflect_dir view_dir) 0
                in ebind (py_pow spec_angle (specular_coefficient mat))
                     (\<lambda>p. let spec_intensity = p / (light_distance + 1);
                              specular = (s0 * spec_intensity * lc0 / 255,
                                          s1 * spec_intensity * lc1 / 255,
                                          s2 * spec_intensity * lc2 / 255)
                          in case diffuse of (df0, df1, df2) \<Rightarrow>
                             case specular of (sp0, sp1, sp2) \<Rightarrow>
                               Inr (min 255 (col0 + df0 + sp0),
                                    min 255 (col1 + df1 + sp1),
                                    min 255 (col2 + df2 + sp2)))))"

fun light_loop :: "(vec3 \<Rightarrow> light \<Rightarrow> error + vec3) \<Rightarrow> vec3 \<Rightarrow> light list \<Rightarrow> error + vec3" where
  "light_loop step color [] = Inr color"
| "light_loop step color (lt # lts) =
     (case step color lt of Inl e \<Rightarrow> Inl e | Inr color' \<Rightarrow> light_loop step color' lts)"

text \<open>
  \<^verbatim>\<open>compute_lighting\<close>; \<^verbatim>\<open>ambient_light\<close>, which the source closes over,
  is the last argument.
\<close>

definition compute_lighting ::
  "vec3 list \<Rightarrow> vec3 \<Rightarrow> light list \<Rightarrow> vec3 \<Rightarrow> material \<Rightarrow> vec3 \<Rightarrow> error + vec3" where
  "compute_lighting face_vertices normal lights camera_position mat ambient_light =
     (case ambient_color mat of (a0, a1, a2) \<Rightarrow>
      case ambient_light of (al0, al1, al2) \<Rightarrow>
        let color = (a0 * al0 / 255, a1 * al1 / 255, a2 * al2 / 255);
            normalized_normal = normalize_vector normal
        in light_loop (light_step face_vertices normalized_normal camera_position mat)
             color lights)"

text \<open>\<^verbatim>\<open>int(c)\<close> on a float truncates towards zero.\<close>

definition py_int :: "real \<Rightarrow> int" where
  "py_int c = (if 0 \<le> c then \<lfloor>c\<rfloor> else \<lceil>c\<rceil>)"

definition draw_filled_polygon :: "(real \<times> real) list \<Rightarrow> vec3 \<Rightarrow> draw_call" where
  "draw_filled_polygon vertices color =
     (case color of (c0, c1, c2) \<Rightarrow> FilledPolygon vertices (py_int c0, py_int c1, py_int c2))"

text \<open>The body of the loop over faces in \<^verbatim>\<open>draw_wireframe\<close>.\<close>

definition wire_face ::
  "object3d \<Rightarrow> camera \<Rightarrow> real \<Rightarrow> int \<Rightarrow> int \<Rightarrow> vec3 list \<Rightarrow> int list \<Rightarrow>
   draw_call list \<times> error option" where
  "wire_face self cam aspect_ratio window_width window_height vertex_array face =
     (case emap (\<lambda>vertex_index.
                   ebind (py_index vertex_array (vertex_index - 1))
                         (perspective_transform cam aspect_ratio window_width window_height))
                face of
        Inl e \<Rightarrow> ([], Some e)
      | Inr projected \<Rightarrow>
          let projected_face = map the (filter (\<lambda>v. v \<noteq> None) projected)
          in if length projected_face < 3 then ([], None)
             else ([Polyline projected_face (ambient_color (obj_material self))], None))"

definition draw_wireframe ::
  "object3d \<Rightarrow> camera \<Rightarrow> real \<Rightarrow> int \<Rightarrow> int \<Rightarrow> vec3 list \<Rightarrow> draw_call list \<times> error option" where
  "draw_wireframe self cam aspect_ratio window_width window_height vertex_array =
     run_loop (wire_face self cam aspect_ratio window_width window_height vertex_array)
       (face_array self)"

text \<open>
  The sort key of \<^verbatim>\<open>draw_faces\<close>. \<^verbatim>\<open>numpy.mean\<close> of an empty list does
  not raise, but no face reaches the key with fewer than three indices,
  because \<^verbatim>\<open>precompute_normals\<close> has raised on such a face before.
\<close>

definition face_sort_key :: "camera \<Rightarrow> vec3 list \<Rightarrow> nat \<times> int list \<Rightarrow> error + real" where
  "face_sort_key cam vertex_array item =
     ebind (emap (\<lambda>i. ebind (py_index vertex_array (i - 1))
                         (\<lambda>v. Inr (snd (snd v) + snd (snd (cam_position cam)))))
                 (snd item))
           (\<lambda>depths. Inr (- (sum_list depths / real (length depths))))"

text \<open>The body of the loop over the sorted faces in \<^verbatim>\<open>draw_faces\<close>.\<close>

definition fill_face ::
  "object3d \<Rightarrow> camera \<Rightarrow> vec3 \<Rightarrow> light list \<Rightarrow> real \<Rightarrow> int \<Rightarrow> int \<Rightarrow> vec3 list \<Rightarrow>
   vec3 list \<Rightarrow> nat \<times> int list \<Rightarrow> draw_call list \<times> error option" where
  "fill_face self cam ambient_light lights aspect_ratio window_width window_height
     vertex_array face_normals item =
     (case emap (\<lambda>i. py_index vertex_array (i - 1)) (snd item) of
        Inl e \<Rightarrow> ([], Some e)
      | Inr face_vertices \<Rightarrow>
          (case emap (perspective_transform cam aspect_ratio window_width window_height)
                     face_vertices of
             Inl e \<Rightarrow> ([], Some e)
           | Inr projected \<Rightarrow>
               let projected_vertices = map the (filter (\<lambda>v. v \<noteq> None) projected)
               in if length projected_vertices < 3 then ([], None)
                  else
                    (case py_index face_normals (int (fst item)) of
                       Inl e \<Rightarrow> ([], Some e)
                     | Inr normal \<Rightarrow>
                         (case compute_lighting face_vertices normal lights (cam_position cam)
                                 (obj_material self) ambient_light of
                            Inl e \<Rightarrow> ([], Some e)
                          | Inr color \<Rightarrow>
                              ([draw_filled_polygon projected_vertices color], None)))))"

definition draw_faces ::
  "object3d \<Rightarrow> camera \<Rightarrow> vec3 \<Rightarrow> light list \<Rightarrow> real \<Rightarrow> int \<Rightarrow> int \<Rightarrow> vec3 list \<Rightarrow>
   draw_call list \<times> error option" where
  "draw_faces self cam ambient_light lights aspect_ratio window_width window_height vertex_array =
     (case precompute_normals self of
        Inl e \<Rightarrow> ([], Some e)
      | Inr face_normals \<Rightarrow>
          (case emap (\<lambda>item. ebind (face_sort_key cam vertex_array item) (\<lambda>k. Inr (k, item)))
                     (enumerate 0 (face_array self)) of
             Inl e \<Rightarrow> ([], Some e)
           | Inr keyed \<Rightarrow>
               let sorted_faces = map snd (sort_key fst keyed)
               in run_loop (fill_face self cam ambient_light lights aspect_ratio window_width
                              window_height vertex_array face_normals)
                    sorted_faces))"

text \<open>
  \<^verbatim>\<open>Object._render\<close>; the window size that the source asks of turtle is
  passed in.
\<close>

definition render ::
  "object3d \<Rightarrow> camera \<Rightarrow> vec3 \<Rightarrow> light list \<Rightarrow> string \<Rightarrow> int \<Rightarrow> int \<Rightarrow>
   draw_call list \<times> error option" where
  "render self cam ambient_light lights mode window_width window_height =
     (if \<not> visible self then ([], None)
      else if window_height = 0 then ([], Some ZeroDivisionError)
      else
        let aspect_ratio = real_of_int window_width / real_of_int window_height;
            vertex_array = camera_perspective_vertex_array self cam
        in if mode = ''wire''
           then draw_wireframe self cam aspect_ratio window_width window_height vertex_array
           else if mode = ''face''
           then draw_faces self cam ambient_light lights aspect_ratio window_width window_height
                  vertex_array
           else ([], Some (Turtle3DError ''Invalid rendering mode. Choose from 'wire', 'face'.'')))"

subsection \<open>Scene\<close>

text \<open>
  The scene holds references to its objects, its lights and its camera; the
  record holds their states at the time of the call.
\<close>

record scene =
  scene_name :: string
  ambient_light :: vec3
  object_memory :: "object3d list"
  light_memory :: "light list"
  active_camera :: "camera option"

text \<open>
  The list \<^verbatim>\<open>distances\<close> of \<^verbatim>\<open>render_scene\<close> after
  \<^verbatim>\<open>distances.sort(key=lambda x: x[1], reverse=True)\<close>. The sort is stable,
  also with \<^verbatim>\<open>reverse=True\<close>.
\<close>

definition sorted_distances :: "scene \<Rightarrow> camera \<Rightarrow> error + (object3d \<times> real) list" where
  "sorted_distances self cam =
     ebind (emap (\<lambda>obj. ebind (get_distance_to_camera obj cam) (\<lambda>d. Inr (obj, d)))
                 (object_memory self))
           (\<lambda>distances. Inr (sort_key (\<lambda>x. - snd x) distances))"

definition render_scene :: "scene \<Rightarrow> string \<Rightarrow> int \<Rightarrow> int \<Rightarrow> draw_call list \<times> error option" where
  "render_scene self mode window_width window_height =
     (case active_camera self of
        None \<Rightarrow> ([], Some (NoActiveCamera (scene_name self)))
      | Some cam \<Rightarrow>
          (case sorted_distances self cam of
             Inl e \<Rightarrow> ([], Some e)
           | Inr distances \<Rightarrow>
               run_loop (\<lambda>(obj, distance).
                           render obj cam (ambient_light self) (light_memory self) mode
                             window_width window_height)
                 distances))"

subsection \<open>Notions of the specification\<close>

text \<open>
  The vertex indices of a face whose vertex survives projection: the index
  resolves to a vertex of the array and the depth of that vertex, its z
  offset from the camera, lies above the near plane and not beyond the far
  plane.
\<close>

definition surviving_vertices :: "camera \<Rightarrow> vec3 list \<Rightarrow> int list \<Rightarrow> int list" where
  "surviving_vertices cam vertex_array face =
     filter (\<lambda>i. case py_index vertex_array (i - 1) of
                    Inl e \<Rightarrow> False
                  | Inr v \<Rightarrow> near_plane cam < snd (snd v) - snd (snd (cam_position cam)) \<and>
                             snd (snd v) - snd (snd (cam_position cam)) \<le> far_plane cam)
            face"


text \<open>
  The nearest-vertex camera distance of an object, in the words of the
  specification: the least Euclidean distance from the camera position to a
  vertex of the camera-space vertex buffer of the object.
\<close>

definition nearest_vertex_distance :: "camera \<Rightarrow> object3d \<Rightarrow> real" where
  "nearest_vertex_distance cam obj =
     Min ((\<lambda>(x, y, z). case cam_position cam of (cx, cy, cz) \<Rightarrow>
              sqrt ((x - cx)\<^sup>2 + (y - cy)\<^sup>2 + (z - cz)\<^sup>2)) `
          set (camera_perspective_vertex_array obj cam))"

subsection \<open>Example entities\<close>

text \<open>
  A material without specular colour, the camera of \<^verbatim>\<open>demo.py\<close> placed at
  the origin, and a triangle with three of the four vertices of a mesh whose
  centroid is the origin, placed five units in front of the camera.
\<close>

definition demo_material :: material where
  "demo_material = \<lparr> mat_name = ''matte'', ambient_color = (255, 255, 255),
                      diffuse_color = (255, 100, 0), specular_color = (0, 0, 0),
                      specular_coefficient = 10 \<rparr>"

definition demo_camera :: camera where
  "demo_camera = \<lparr> cam_name = ''Main Camera'', cam_position = (0, 0, 0),
                    cam_rotation = (0, 0, 0), fov = 90, near_plane = 1 / 10, far_plane = 1000,
                    rotation_order = [''y'', ''x'', ''z''], x_clamp = None, y_clamp = None,
                    z_clamp = None, cam_id = 1 \<rparr>"

definition slanted_triangle :: object3d where
  "slanted_triangle =
     \<lparr> obj_name = ''tri'', face_array = [[1, 2, 3]],
       original_vertex_array = [(0, 0, 0), (1, 0, 0), (0, 0, 1), (-1, 0, -1)],
       transformed_vertex_array = [(0, 0, 0), (1, 0, 0), (0, 0, 1), (-1, 0, -1)],
       translated_vertex_array = [(0, 0, 5), (1, 0, 5), (0, 0, 6), (-1, 0, 4)],
       obj_position = (0, 0, -5), obj_rotation = (0, 0, 0), obj_scale = (1, 1, 1),
       obj_material = demo_material, visible = True, obj_id = 1 \<rparr>"

text \<open>The same triangle placed beyond the far plane of the camera.\<close>

definition far_triangle :: object3d where
  "far_triangle =
     slanted_triangle
       \<lparr> translated_vertex_array := [(0, 0, 2000), (1, 0, 2000), (0, 0, 2001), (-1, 0, 1999)],
         obj_position := (0, 0, -2000) \<rparr>"




text \<open>
  A triangle whose centroid is the origin, placed at a position as the
  constructor places it, and a scene of three of them. The one nearest to
  the camera has the greatest depth, and the farthest the least.
\<close>

definition wedge_at :: "string \<Rightarrow> vec3 \<Rightarrow> object3d" where
  "wedge_at name position =
     update_translated_vertices
       \<lparr> obj_name = name, face_array = [[1, 2, 3]],
         original_vertex_array = [(-3, -1, 0), (3, -1, 0), (0, 2, 0)],
         transformed_vertex_array = [(-3, -1, 0), (3, -1, 0), (0, 2, 0)],
         translated_vertex_array = [(-3, -1, 0), (3, -1, 0), (0, 2, 0)],
         obj_position = (case position of (px, py, pz) \<Rightarrow> (px, py, 0 - pz)),
         obj_rotation = (0, 0, 0), obj_scale = (1, 1, 1),
         obj_material = demo_material, visible = True, obj_id = 1 \<rparr>"

definition three_wedge_scene :: scene where
  "three_wedge_scene =
     \<lparr> scene_name = ''S'', ambient_light = (25, 25, 25),
       object_memory = [wedge_at ''mid'' (0, 5, 2), wedge_at ''near'' (0, 0, 4),
                        wedge_at ''far'' (0, 8, 1)],
       light_memory = [], active_camera = Some demo_camera \<rparr>"

section \<open>Properties\<close>

subsection \<open>Loops and comprehensions that may raise\<close>


lemma emap_total:
  "(\<And>x. x \<in> set xs \<Longrightarrow> \<exists>y. f x = Inr y) \<Longrightarrow> \<exists>ys. emap f xs = Inr ys"
proof (induction xs)
  case Nil
  then show ?case by simp
next
  case (Cons x xs)
  then obtain y ys where "f x = Inr y" "emap f xs = Inr ys" by (meson list.set_intros)
  then show ?case by simp
qed

lemma emap_ebind_split:
  "emap (\<lambda>i. ebind (g i) f) xs = Inr ys \<Longrightarrow> \<exists>vs. emap g xs = Inr vs \<and> emap f vs = Inr ys"
proof (induction xs arbitrary: ys)
  case Nil
  then show ?case by simp
next
  case (Cons x xs)
  then show ?case by (fastforce simp add: ebind_def split: sum.splits)
qed

lemma emap_tagged:
  "emap (\<lambda>x. ebind (f x) (\<lambda>d. Inr (x, d))) xs = Inr ys \<Longrightarrow>
     map fst ys = xs \<and> (\<forall>(x, d) \<in> set ys. f x = Inr d)"
proof (induction xs arbitrary: ys)
  case Nil
  then show ?case by simp
next
  case (Cons x xs)
  then show ?case by (fastforce simp add: ebind_def split: sum.splits)
qed

lemma emap_tagged_map:
  "emap (\<lambda>x. ebind (f x) (\<lambda>d. Inr (x, d))) xs = Inr ys \<Longrightarrow>
     ys = map (\<lambda>x. (x, projr (f x))) xs"
proof (induction xs arbitrary: ys)
  case Nil
  then show ?case by simp
next
  case (Cons x xs)
  then show ?case by (fastforce simp add: ebind_def split: sum.splits)
qed

lemma emap_keyed_items:
  "emap (\<lambda>x. ebind (f x) (\<lambda>k. Inr (k, x))) xs = Inr ys \<Longrightarrow> map snd ys = xs"
proof (induction xs arbitrary: ys)
  case Nil
  then show ?case by simp
next
  case (Cons x xs)
  then show ?case by (fastforce simp add: ebind_def split: sum.splits)
qed

lemma run_loop_no_calls:
  "(\<And>x. x \<in> set xs \<Longrightarrow> fst (body x) = []) \<Longrightarrow> fst (run_loop body xs) = []"
proof (induction xs)
  case Nil
  then show ?case by simp
next
  case (Cons x xs)
  have "fst (body x) = []" using Cons.prems by simp
  moreover have "fst (run_loop body xs) = []" using Cons by simp
  ultimately show ?case by (auto split: prod.splits option.splits)
qed



lemma sorted_faces_are_faces:
  assumes "emap (\<lambda>item. ebind (key item) (\<lambda>k. Inr (k, item))) (enumerate 0 faces) = Inr keyed"
      and "item \<in> set (map snd (sort_key fst keyed))"
  shows "fst item < length faces \<and> faces ! fst item = snd item"
proof -
  have "set (map snd (sort_key fst keyed)) = set (map snd keyed)" by simp
  with assms(2) emap_keyed_items [OF assms(1)] have "item \<in> set (enumerate 0 faces)"
    by simp
  then show ?thesis by (simp add: in_set_enumerate_eq)
qed

subsection \<open>Example entities\<close>

lemma slanted_triangle_constructed:
  "Object_init [] ''tri'' [(0, 0, 0), (1, 0, 0), (0, 0, 1), (-1, 0, -1)] [[1, 2, 3]]
     (Some (0, 0, 5)) None None (Some demo_material) None =
   Inr (slanted_triangle, [slanted_triangle])"
  by (simp add: Object_init_def center_vertex_array_def update_transformed_vertices_def
        update_translated_vertices_def rotate_x_def rotate_y_def rotate_z_def radians_def
        slanted_triangle_def Let_def)

lemma demo_camera_constructed:
  "Camera_init [] ''Main Camera'' None None (Some 90) None None None None None None =
   Inr (demo_camera, [demo_camera])"
  by (simp add: Camera_init_def demo_camera_def Let_def)

lemma tan_45_radians: "tan (radians 90 / 2) = 1"
proof -
  have h: "radians 90 / 2 = pi / 4" by (simp add: radians_def)
  show ?thesis by (simp only: h tan_45)
qed

lemma unrotated_camera_space:
  assumes "cam_rotation cam = (0, 0, 0)" and "rotation_order cam = [''y'', ''x'', ''z'']"
  shows "camera_perspective_vertex_array self cam = translated_vertex_array self"
  using assms
  by (simp add: camera_perspective_vertex_array_def camera_step_def rotate_x_def rotate_y_def
        rotate_z_def radians_def Let_def split_beta)


subsection \<open>Entity construction and the camera setters\<close>

text \<open>
  C8. Constructing a \<^verbatim>\<open>Light\<close> whose name is already in the global light
  registry is claimed to fail with \<^verbatim>\<open>DuplicateNameError\<close> and to register
  nothing. Evaluated on the scenario \<^verbatim>\<open>Light("L1", [0,0,-10])\<close> followed by
  \<^verbatim>\<open>Light("L1", [1,1,1])\<close>: the first construction registers the light, the
  second one fails, but the exception that reaches the caller is
  \<^verbatim>\<open>TypeError\<close>, raised while building the \<^verbatim>\<open>DuplicateNameError\<close>
  without its required name argument; it is no \<^verbatim>\<open>DuplicateNameError\<close>.
\<close>

theorem Light_init_duplicate_raises_TypeError:
  "(case Light_init [] ''L1'' (0, 0, -10) None None of
      Inl e \<Rightarrow> False
    | Inr (l1, memory) \<Rightarrow>
        memory = [l1] \<and> light_name l1 = ''L1'' \<and>
        Light_init memory ''L1'' (1, 1, 1) None None = Inl TypeError \<and>
        Light_init memory ''L1'' (1, 1, 1) None None \<noteq> Inl (DuplicateNameError ''L1''))"
  by (simp add: Light_init_def Let_def)

text \<open>
  C1. \<^verbatim>\<open>Camera.set_rotation\<close> is claimed to set the Z-axis rotation when
  \<^verbatim>\<open>z\<close> is supplied. Evaluated on a default camera (rotation
  \<^verbatim>\<open>[0, 0, 0]\<close>, no clamps) and \<^verbatim>\<open>set_rotation(z=30)\<close>: the value 30 is
  stored in the X-axis slot and the Z-axis rotation stays 0, whereas
  \<^verbatim>\<open>rotate(z=30)\<close> on the same camera does change the Z-axis slot.
\<close>

theorem Camera_set_rotation_z_writes_x_slot:
  "(case Camera_init [] ''cam'' None None None None None None None None None of
      Inl e \<Rightarrow> False
    | Inr (cam, memory) \<Rightarrow>
        cam_rotation cam = (0, 0, 0) \<and>
        cam_rotation (Camera_set_rotation cam None None (Some 30)) = (30, 0, 0) \<and>
        cam_rotation (Camera_set_rotation cam None None (Some 30)) \<noteq> (0, 0, 30) \<and>
        cam_rotation (Camera_rotate cam None None (Some 30)) = (0, 0, 30))"
  by (simp add: Camera_init_def Camera_set_rotation_def Camera_rotate_def Let_def)




lemma update_transformed_vertices_keeps:
  "obj_position (update_transformed_vertices self) = obj_position self"
  "obj_rotation (update_transformed_vertices self) = obj_rotation self"
  by (simp_all add: update_transformed_vertices_def update_translated_vertices_def Let_def
        split: prod.splits)

text \<open>
  C9. For an \<^verbatim>\<open>Object\<close> (\<^verbatim>\<open>set_position\<close>, \<^verbatim>\<open>set_rotation\<close>) and a
  \<^verbatim>\<open>Camera\<close> (\<^verbatim>\<open>set_position\<close>), passing 0 for an axis behaves exactly
  as omitting the argument \<^emph>\<open>for every axis\<close>, so the coordinate on that axis is
  left unchanged; and a coordinate that is not 0 is not 0 after the setter,
  whatever the arguments: these setters cannot set it to exactly 0.
\<close>

theorem setters_ignore_zero:
  "Object_set_position self (Some 0) y z = Object_set_position self None y z \<and>
   Object_set_position self x (Some 0) z = Object_set_position self x None z \<and>
   Object_set_position self x y (Some 0) = Object_set_position self x y None \<and>
   Object_set_rotation self (Some 0) y z = Object_set_rotation self None y z \<and>
   Object_set_rotation self x (Some 0) z = Object_set_rotation self x None z \<and>
   Object_set_rotation self x y (Some 0) = Object_set_rotation self x y None \<and>
   Camera_set_position cam (Some 0) y z = Camera_set_position cam None y z \<and>
   Camera_set_position cam x (Some 0) z = Camera_set_position cam x None z \<and>
   Camera_set_position cam x y (Some 0) = Camera_set_position cam x y None \<and>
   fst (obj_position (Object_set_position self (Some 0) y z)) = fst (obj_position self) \<and>
   fst (snd (obj_position (Object_set_position self x (Some 0) z))) =
     fst (snd (obj_position self)) \<and>
   snd (snd (obj_position (Object_set_position self x y (Some 0)))) =
     snd (snd (obj_position self)) \<and>
   fst (obj_rotation (Object_set_rotation self (Some 0) y z)) = fst (obj_rotation self) \<and>
   fst (snd (obj_rotation (Object_set_rotation self x (Some 0) z))) =
     fst (snd (obj_rotation self)) \<and>
   snd (snd (obj_rotation (Object_set_rotation self x y (Some 0)))) =
     snd (snd (obj_rotation self)) \<and>
   fst (cam_position (Camera_set_position cam (Some 0) y z)) = fst (cam_position cam) \<and>
   fst (snd (cam_position (Camera_set_position cam x (Some 0) z))) =
     fst (snd (cam_position cam)) \<and>
   snd (snd (cam_position (Camera_set_position cam x y (Some 0)))) =
     snd (snd (cam_position cam)) \<and>
   (fst (obj_position self) \<noteq> 0 \<longrightarrow>
      fst (obj_position (Object_set_position self x y z)) \<noteq> 0) \<and>
   (fst (snd (obj_position self)) \<noteq> 0 \<longrightarrow>
      fst (snd (obj_position (Object_set_position self x y z))) \<noteq> 0) \<and>
   (snd (snd (obj_position self)) \<noteq> 0 \<longrightarrow>
      snd (snd (obj_position (Object_set_position self x y z))) \<noteq> 0) \<and>
   (fst (obj_rotation self) \<noteq> 0 \<longrightarrow>
      fst (obj_rotation (Object_set_rotation self x y z)) \<noteq> 0) \<and>
   (fst (snd (obj_rotation self)) \<noteq> 0 \<longrightarrow>
      fst (snd (obj_rotation (Object_set_rotation self x y z))) \<noteq> 0) \<and>
   (snd (snd (obj_rotation self)) \<noteq> 0 \<longrightarrow>
      snd (snd (obj_rotation (Object_set_rotation self x y z))) \<noteq> 0) \<and>
   (fst (cam_position cam) \<noteq> 0 \<longrightarrow>
      fst (cam_position (Camera_set_position cam x y z)) \<noteq> 0) \<and>
   (fst (snd (cam_position cam)) \<noteq> 0 \<longrightarrow>
      fst (snd (cam_position (Camera_set_position cam x y z))) \<noteq> 0) \<and>
   (snd (snd (cam_position cam)) \<noteq> 0 \<longrightarrow>
      snd (snd (cam_position (Camera_set_position cam x y z))) \<noteq> 0)"
  by (cases x; cases y; cases z)
     (simp_all add: Object_set_position_def Object_set_rotation_def Camera_set_position_def
        update_transformed_vertices_keeps Let_def split: prod.splits)

theorem setters_ignore_zero_witness:
  "obj_position (Object_set_position (slanted_triangle\<lparr>obj_position := (1, 2, 3)\<rparr>)
                   (Some 0) (Some 0) (Some 0)) = (1, 2, 3) \<and>
   obj_rotation (Object_set_rotation (slanted_triangle\<lparr>obj_rotation := (10, 20, 30)\<rparr>)
                   (Some 0) (Some 0) (Some 0)) = (10, 20, 30) \<and>
   cam_position (Camera_set_position (demo_camera\<lparr>cam_position := (4, 5, 6)\<rparr>)
                   (Some 0) (Some 0) (Some 0)) = (4, 5, 6) \<and>
   fst (obj_position (slanted_triangle\<lparr>obj_position := (1, 2, 3)\<rparr>)) \<noteq> 0 \<and>
   fst (obj_position (Object_set_position (slanted_triangle\<lparr>obj_position := (1, 2, 3)\<rparr>)
                        (Some 0) (Some 7) None)) \<noteq> 0"
proof -
  let ?obj = "slanted_triangle\<lparr>obj_position := (1, 2, 3)\<rparr>"
  let ?rot = "slanted_triangle\<lparr>obj_rotation := (10, 20, 30)\<rparr>"
  let ?cam = "demo_camera\<lparr>cam_position := (4, 5, 6)\<rparr>"
  note a = setters_ignore_zero [of ?obj "Some 0" "Some 0" "Some 0" ?cam]
  note b = setters_ignore_zero [of ?obj "Some 7" None "Some 0" ?cam]
  note c = setters_ignore_zero [of ?obj None None None ?cam]
  note r = setters_ignore_zero [of ?rot "Some 0" "Some 0" "Some 0" ?cam]
  note r' = setters_ignore_zero [of ?rot None None None ?cam]
  have p: "fst (obj_position ?obj) \<noteq> 0" by simp
  have 1: "obj_position (Object_set_position ?obj (Some 0) (Some 0) (Some 0)) = (1, 2, 3)"
    using a c
    by (simp add: Object_set_position_def update_transformed_vertices_keeps)
  have 2: "obj_rotation (Object_set_rotation ?rot (Some 0) (Some 0) (Some 0)) = (10, 20, 30)"
    using r r'
    by (simp add: Object_set_rotation_def update_transformed_vertices_keeps)
  have 3: "cam_position (Camera_set_position ?cam (Some 0) (Some 0) (Some 0)) = (4, 5, 6)"
    using a c by (simp add: Camera_set_position_def)
  have 4: "fst (obj_position (Object_set_position ?obj (Some 0) (Some 7) None)) \<noteq> 0"
    using b p by blast
  from 1 2 3 4 p show ?thesis by blast
qed

subsection \<open>Rotations\<close>

lemma rot_back_aux:
  fixes a b s c :: real
  assumes "s\<^sup>2 + c\<^sup>2 = 1"
  shows "(a * c + b * s) * c - (b * c - a * s) * s = a"
    and "(b * c - a * s) * c + (a * c + b * s) * s = b"
proof -
  have "(a * c + b * s) * c - (b * c - a * s) * s = a * (s\<^sup>2 + c\<^sup>2)"
    by (simp add: algebra_simps power2_eq_square)
  then show "(a * c + b * s) * c - (b * c - a * s) * s = a" using assms by simp
  have "(b * c - a * s) * c + (a * c + b * s) * s = b * (s\<^sup>2 + c\<^sup>2)"
    by (simp add: algebra_simps power2_eq_square)
  then show "(b * c - a * s) * c + (a * c + b * s) * s = b" using assms by simp
qed

lemma radians_minus: "radians (- a) = - radians a"
  by (simp add: radians_def)

lemma rotate_x_inverse:
  "rotate_x (- angle) (rotate_x angle vertex_array pivot) pivot = vertex_array"
proof -
  have sc: "(sin (radians angle))\<^sup>2 + (cos (radians angle))\<^sup>2 = 1" by simp
  note rb = rot_back_aux [OF sc]
  show ?thesis
    unfolding rotate_x_def Let_def radians_minus map_map
    by (rule map_idI) (clarsimp simp add: rb)
qed

lemma rotate_y_inverse:
  "rotate_y (- angle) (rotate_y angle vertex_array pivot) pivot = vertex_array"
proof -
  have sc: "(sin (radians angle))\<^sup>2 + (cos (radians angle))\<^sup>2 = 1" by simp
  note rb = rot_back_aux [OF sc]
  show ?thesis
    unfolding rotate_y_def Let_def radians_minus map_map
    by (rule map_idI) (clarsimp simp add: rb)
qed

lemma rotate_z_inverse:
  "rotate_z (- angle) (rotate_z angle vertex_array pivot) pivot = vertex_array"
proof -
  have sc: "(sin (radians angle))\<^sup>2 + (cos (radians angle))\<^sup>2 = 1" by simp
  note rb = rot_back_aux [OF sc]
  show ?thesis
    unfolding rotate_z_def Let_def radians_minus map_map
    by (rule map_idI) (clarsimp simp add: rb)
qed

text \<open>
  C6. For every vertex list, pivot and angle, rotating about one axis by the
  angle and then by its negation about the same axis and pivot gives back
  the original vertex list, exactly, over the reals; this holds for each of
  the three axes.
\<close>

theorem axis_rotation_then_inverse_restores:
  "rotate_x (- angle) (rotate_x angle vertex_array pivot) pivot = vertex_array \<and>
   rotate_y (- angle) (rotate_y angle vertex_array pivot) pivot = vertex_array \<and>
   rotate_z (- angle) (rotate_z angle vertex_array pivot) pivot = vertex_array"
  by (simp only: rotate_x_inverse rotate_y_inverse rotate_z_inverse)

subsection \<open>Projection\<close>

text \<open>
  C3, as amended. Provided the aspect ratio is not zero and the field of view
  is not an odd multiple of 180 degrees (where the tangent has its pole), the
  perspective transform returns no screen coordinate exactly when the depth of the
  vertex (its z offset from the camera) is at most the near plane or greater
  than the far plane. For a vertex that is not culled it returns the screen
  coordinate \<^verbatim>\<open>(x_offset / (depth * half_width) * window_width,
  y_offset / (depth * half_height) * window_height)\<close>, which is what the
  remapping through NDC amounts to, when both divisors are not zero, and it
  raises \<^verbatim>\<open>ZeroDivisionError\<close> when one of them is zero.
\<close>

theorem perspective_transform_cull_iff:
  assumes "aspect_ratio \<noteq> 0" and "cos (radians (fov cam) / 2) \<noteq> 0"
  shows
    "(perspective_transform cam aspect_ratio window_width window_height (vx, vy, vz) = Inr None
        \<longleftrightarrow> vz - snd (snd (cam_position cam)) \<le> near_plane cam \<or>
            vz - snd (snd (cam_position cam)) > far_plane cam) \<and>
     (\<not> (vz - snd (snd (cam_position cam)) \<le> near_plane cam \<or>
         vz - snd (snd (cam_position cam)) > far_plane cam) \<longrightarrow>
        perspective_transform cam aspect_ratio window_width window_height (vx, vy, vz) =
          (if (vz - snd (snd (cam_position cam))) * tan (radians (fov cam) / 2) = 0 \<or>
              (vz - snd (snd (cam_position cam))) * (tan (radians (fov cam) / 2) / aspect_ratio) = 0
           then Inl ZeroDivisionError
           else Inr (Some
             ((vx - fst (cam_position cam)) /
                ((vz - snd (snd (cam_position cam))) * tan (radians (fov cam) / 2)) *
                real_of_int window_width,
              (vy - fst (snd (cam_position cam))) /
                ((vz - snd (snd (cam_position cam))) *
                   (tan (radians (fov cam) / 2) / aspect_ratio)) *
                real_of_int window_height))))"
  using assms(1) by (auto simp add: perspective_transform_def Let_def)

theorem perspective_transform_cull_iff_witness:
  "perspective_transform demo_camera (4 / 3) 800 600 (1, 1, 2000) = Inr None \<and>
   perspective_transform demo_camera (4 / 3) 800 600 (0, 0, 0) = Inr None \<and>
   perspective_transform demo_camera (4 / 3) 800 600 (1, 3, 5) = Inr (Some (160, 480))"
proof -
  have a: "(4 / 3 :: real) \<noteq> 0" by simp
  have t: "tan (radians (fov demo_camera) / 2) = 1"
    using tan_45_radians by (simp add: demo_camera_def)
  have h: "radians (fov demo_camera) / 2 = pi / 4"
    by (simp add: demo_camera_def radians_def)
  have c: "cos (radians (fov demo_camera) / 2) \<noteq> 0"
    by (simp only: h cos_45) simp
  show ?thesis
    using perspective_transform_cull_iff [OF a c, of 800 600 1 1 2000]
          perspective_transform_cull_iff [OF a c, of 800 600 0 0 0]
          perspective_transform_cull_iff [OF a c, of 800 600 1 3 5]
    by (simp add: t) (simp add: demo_camera_def tan_45_radians)
qed

text \<open>
  C3 as stated fails: with a field of view of 0 degrees (near plane 0.1, far
  plane 1000, window 800 by 600), the vertex \<^verbatim>\<open>(1, 1, 1)\<close> seen from the
  origin has depth 1, which is neither at most the near plane nor beyond the
  far plane, and yet the transform returns no screen coordinate: it raises
  \<^verbatim>\<open>ZeroDivisionError\<close>.
\<close>

theorem perspective_transform_zero_fov_raises:
  "\<not> ((1::real) - snd (snd (cam_position (demo_camera\<lparr>fov := 0\<rparr>)))
         \<le> near_plane (demo_camera\<lparr>fov := 0\<rparr>) \<or>
       (1::real) - snd (snd (cam_position (demo_camera\<lparr>fov := 0\<rparr>)))
         > far_plane (demo_camera\<lparr>fov := 0\<rparr>)) \<and>
   perspective_transform (demo_camera\<lparr>fov := 0\<rparr>) (800 / 600) 800 600 (1, 1, 1) =
     Inl ZeroDivisionError"
  by (simp add: perspective_transform_def demo_camera_def radians_def Let_def)

subsection \<open>Lighting\<close>

lemma normalize_scaled_unit:
  assumes unit: "n0\<^sup>2 + n1\<^sup>2 + n2\<^sup>2 = (1::real)" and r: "1 / 1000000 \<le> r"
  shows "normalize_vector (r * n0, r * n1, r * n2) = (n0, n1, n2)"
proof -
  have rpos: "0 < r" using r by simp
  have "(r * n0)\<^sup>2 + (r * n1)\<^sup>2 + (r * n2)\<^sup>2 = r\<^sup>2 * (n0\<^sup>2 + n1\<^sup>2 + n2\<^sup>2)"
    by (simp add: power_mult_distrib algebra_simps)
  then have "(r * n0)\<^sup>2 + (r * n1)\<^sup>2 + (r * n2)\<^sup>2 = r\<^sup>2" using unit by simp
  then have norm: "sqrt ((r * n0)\<^sup>2 + (r * n1)\<^sup>2 + (r * n2)\<^sup>2) = r"
    using rpos by simp
  show ?thesis
    unfolding normalize_vector_def using r rpos by (simp add: norm Let_def)
qed

lemma py_pow_total:
  assumes "0 \<le> e \<or> 0 < b"
  shows "\<exists>p. py_pow b e = Inr p"
  using assms by (auto simp add: py_pow_def)

lemma view_in_front:
  assumes front: "0 < n0 * v0 + n1 * v1 + n2 * v2"
      and away: "1 / 1000000 \<le> sqrt (v0\<^sup>2 + v1\<^sup>2 + v2\<^sup>2)"
  shows "0 < dot3 (n0, n1, n2) (normalize_vector (v0, v1, v2))"
proof -
  let ?norm = "sqrt (v0\<^sup>2 + v1\<^sup>2 + v2\<^sup>2)"
  have pos: "0 < ?norm" using away by linarith
  have nv: "normalize_vector (v0, v1, v2) = (v0 / ?norm, v1 / ?norm, v2 / ?norm)"
    using away by (simp add: normalize_vector_def Let_def)
  have "dot3 (n0, n1, n2) (v0 / ?norm, v1 / ?norm, v2 / ?norm) =
          (n0 * v0 + n1 * v1 + n2 * v2) / ?norm"
    by (simp add: dot3_def add_divide_distrib)
  with front pos show ?thesis by (simp only: nv) simp
qed

text \<open>
  C5, as amended. Take a face whose normal \<^verbatim>\<open>(n0, n1, n2)\<close> is a unit
  vector, and a single light that lies in the direction of that normal from
  the first vertex of the face, at a distance \<^verbatim>\<open>r\<close> of at least
  \<^verbatim>\<open>1e-6\<close>: light position minus first vertex is \<^verbatim>\<open>r\<close> times the normal.
  Let the scene ambient light and the specular colour of the material be
  \<^verbatim>\<open>(0, 0, 0)\<close>, and let the specular exponent be not negative or else the
  camera lie strictly on the lit side of the face, at least \<^verbatim>\<open>1e-6\<close> away
  from the first vertex. Then \<^verbatim>\<open>compute_lighting\<close> returns, per channel,
  the minimum of 255 and \<^verbatim>\<open>diffuse_color * intensity * light_color / 255\<close>.
\<close>

theorem facing_light_colour:
  assumes unit: "n0\<^sup>2 + n1\<^sup>2 + n2\<^sup>2 = 1"
      and facing: "l0 - f0 = r * n0" "l1 - f1 = r * n1" "l2 - f2 = r * n2"
      and away: "1 / 1000000 \<le> r"
      and lpos: "light_position lt = (l0, l1, l2)"
      and lcol: "light_color lt = (lc0, lc1, lc2)"
      and diff: "diffuse_color mat = (d0, d1, d2)"
      and spec: "specular_color mat = (0, 0, 0)"
      and coef: "0 \<le> specular_coefficient mat \<or>
                 (0 < n0 * (c0 - f0) + n1 * (c1 - f1) + n2 * (c2 - f2) \<and>
                  1 / 1000000 \<le> sqrt ((c0 - f0)\<^sup>2 + (c1 - f1)\<^sup>2 + (c2 - f2)\<^sup>2))"
  shows "compute_lighting ((f0, f1, f2) # rest) (n0, n1, n2) [lt] (c0, c1, c2) mat (0, 0, 0) =
           Inr (min 255 (d0 * light_intensity lt * lc0 / 255),
                min 255 (d1 * light_intensity lt * lc1 / 255),
                min 255 (d2 * light_intensity lt * lc2 / 255))"
proof -
  obtain a0 a1 a2 where am: "ambient_color mat = (a0, a1, a2)" by (cases "ambient_color mat") auto
  have nn: "normalize_vector (n0, n1, n2) = (n0, n1, n2)"
    using unit by (simp add: normalize_vector_def)
  have nl: "normalize_vector (l0 - f0, l1 - f1, l2 - f2) = (n0, n1, n2)"
    unfolding facing using unit away by (rule normalize_scaled_unit)
  have dot: "dot3 (n0, n1, n2) (n0, n1, n2) = 1"
    using unit by (simp add: dot3_def power2_eq_square)
  let ?sa = "max (dot3 (n0, n1, n2) (normalize_vector (c0 - f0, c1 - f1, c2 - f2))) 0"
  have "0 \<le> specular_coefficient mat \<or> 0 < ?sa"
    using coef view_in_front [of n0 "c0 - f0" n1 "c1 - f1" n2 "c2 - f2"] by auto
  from py_pow_total [OF this] obtain p where p: "py_pow ?sa (specular_coefficient mat) = Inr p"
    by blast
  have refl: "normalize_vector (2 * n0 * 1 - n0, 2 * n1 * 1 - n1, 2 * n2 * 1 - n2) = (n0, n1, n2)"
    using nn by simp
  have step: "light_step ((f0, f1, f2) # rest) (n0, n1, n2) (c0, c1, c2) mat (0, 0, 0) lt =
          Inr (min 255 (d0 * light_intensity lt * lc0 / 255),
               min 255 (d1 * light_intensity lt * lc1 / 255),
               min 255 (d2 * light_intensity lt * lc2 / 255))"
    unfolding light_step_def list.case prod.case lpos lcol diff spec Let_def nl dot
    using refl p by (simp add: ebind_def)
  show ?thesis
    unfolding compute_lighting_def
    by (simp add: am nn step Let_def)
qed

theorem facing_light_colour_witness:
  "compute_lighting [(0, 0, 5), (1, 0, 5), (0, 1, 5)] (0, 0, -1)
     [\<lparr> light_name = ''L1'', light_position = (0, 0, 3), light_color = (255, 255, 255),
        light_intensity = 2, light_id = 1 \<rparr>]
     (0, 0, 0) demo_material (0, 0, 0) = Inr (255, 200, 0)"
proof -
  let ?lt = "\<lparr> light_name = ''L1'', light_position = (0, 0, 3), light_color = (255, 255, 255),
               light_intensity = 2, light_id = 1 \<rparr>"
  have unit: "(0::real)\<^sup>2 + 0\<^sup>2 + (-1)\<^sup>2 = 1" by simp
  have facing: "(0::real) - 0 = 2 * 0" "(0::real) - 0 = 2 * 0" "(3::real) - 5 = 2 * (-1)"
    by simp_all
  have away: "1 / 1000000 \<le> (2::real)" by simp
  have lpos: "light_position ?lt = (0, 0, 3)" by simp
  have lcol: "light_color ?lt = (255, 255, 255)" by simp
  have diff: "diffuse_color demo_material = (255, 100, 0)" by (simp add: demo_material_def)
  have spec: "specular_color demo_material = (0, 0, 0)" by (simp add: demo_material_def)
  have coef: "0 \<le> specular_coefficient demo_material \<or>
              (0 < (0::real) * (0 - 0) + 0 * (0 - 0) + (-1) * (0 - 5) \<and>
               1 / 1000000 \<le> sqrt (((0::real) - 0)\<^sup>2 + (0 - 0)\<^sup>2 + (0 - 5)\<^sup>2))"
    by (simp add: demo_material_def)
  from facing_light_colour [OF unit facing away lpos lcol diff spec coef,
         of "[(1, 0, 5), (0, 1, 5)]"]
  show ?thesis by simp
qed

lemma sqrt_tiny: "sqrt (1 / 100000000000000) = 1 / 10000000"
  by (rule real_sqrt_unique) (simp_all add: power2_eq_square)

lemma normalize_tiny: "normalize_vector (0, 0, - (1 / 10000000)) = (0, 0, 0)"
  by (simp add: normalize_vector_def sqrt_tiny)

lemma normalize_z_axis:
  "normalize_vector (0, 0, -1) = (0, 0, -1)"
  "normalize_vector (0, 0, 1) = (0, 0, 1)"
  "normalize_vector (0, 0, 0) = (0, 0, 0)"
  by (simp_all add: normalize_vector_def)

text \<open>
  C5 as stated fails in two ways. The face with first vertex \<^verbatim>\<open>(0, 0, 5)\<close>
  and unit normal \<^verbatim>\<open>(0, 0, -1)\<close> directly faces a white light of intensity 1
  placed \<^verbatim>\<open>1e-7\<close> in front of that vertex; ambient light and specular
  colour are \<^verbatim>\<open>(0, 0, 0)\<close>, yet the colour computed is black, not
  \<^verbatim>\<open>(255, 100, 0)\<close>, because \<^verbatim>\<open>normalize_vector\<close> returns the zero vector
  for a direction shorter than \<^verbatim>\<open>1e-6\<close>. And with the light one unit in
  front of the vertex, a material constructed with specular exponent -1 and
  the camera behind the face, no colour is returned at all: the power
  \<^verbatim>\<open>0.0 ** -1\<close> raises \<^verbatim>\<open>ZeroDivisionError\<close>.
\<close>

theorem facing_light_colour_fails:
  "compute_lighting [(0, 0, 5), (1, 0, 5), (0, 1, 5)] (0, 0, -1)
     [\<lparr> light_name = ''L1'', light_position = (0, 0, 5 - 1 / 10000000),
        light_color = (255, 255, 255), light_intensity = 1, light_id = 1 \<rparr>]
     (0, 0, 4) (Material_init ''matte'' None (Some (255, 100, 0)) (Some (0, 0, 0)) (Some 10))
     (0, 0, 0) = Inr (0, 0, 0) \<and>
   Inr (0, 0, 0) \<noteq>
     (Inr (min 255 (255 * 1 * 255 / 255), min 255 (100 * 1 * 255 / 255),
           min 255 (0 * 1 * 255 / 255)) :: error + vec3) \<and>
   compute_lighting [(0, 0, 5), (1, 0, 5), (0, 1, 5)] (0, 0, -1)
     [\<lparr> light_name = ''L1'', light_position = (0, 0, 4),
        light_color = (255, 255, 255), light_intensity = 1, light_id = 1 \<rparr>]
     (0, 0, 6) (Material_init ''matte'' None (Some (255, 100, 0)) (Some (0, 0, 0)) (Some (-1)))
     (0, 0, 0) = Inl ZeroDivisionError"
proof -
  have a: "compute_lighting [(0, 0, 5), (1, 0, 5), (0, 1, 5)] (0, 0, -1)
     [\<lparr> light_name = ''L1'', light_position = (0, 0, 5 - 1 / 10000000),
        light_color = (255, 255, 255), light_intensity = 1, light_id = 1 \<rparr>]
     (0, 0, 4) (Material_init ''matte'' None (Some (255, 100, 0)) (Some (0, 0, 0)) (Some 10))
     (0, 0, 0) = Inr (0, 0, 0)"
    by (simp add: compute_lighting_def light_step_def Material_init_def normalize_z_axis
          normalize_tiny dot3_def py_pow_def ebind_def Let_def)
  have b: "compute_lighting [(0, 0, 5), (1, 0, 5), (0, 1, 5)] (0, 0, -1)
     [\<lparr> light_name = ''L1'', light_position = (0, 0, 4),
        light_color = (255, 255, 255), light_intensity = 1, light_id = 1 \<rparr>]
     (0, 0, 6) (Material_init ''matte'' None (Some (255, 100, 0)) (Some (0, 0, 0)) (Some (-1)))
     (0, 0, 0) = Inl ZeroDivisionError"
    by (simp add: compute_lighting_def light_step_def Material_init_def normalize_z_axis
          dot3_def py_pow_def ebind_def Let_def)
  show ?thesis by (rule conjI [OF a conjI [OF _ b]]) simp
qed

subsection \<open>Faces with fewer than three surviving vertices\<close>

lemma perspective_transform_Some_in_range:
  "perspective_transform cam ar ww wh v = Inr (Some p) \<Longrightarrow>
     near_plane cam < snd (snd v) - snd (snd (cam_position cam)) \<and>
     snd (snd v) - snd (snd (cam_position cam)) \<le> far_plane cam"
  by (auto simp add: perspective_transform_def Let_def split: if_splits)

lemma projected_le_surviving:
  "emap (\<lambda>i. py_index va (i - 1)) face = Inr vs \<Longrightarrow>
   emap (perspective_transform cam ar ww wh) vs = Inr ps \<Longrightarrow>
   length (filter (\<lambda>p. p \<noteq> None) ps) \<le> length (surviving_vertices cam va face)"
proof (induction face arbitrary: vs ps)
  case Nil
  then show ?case by (auto simp add: surviving_vertices_def)
next
  case (Cons i face)
  from Cons.prems(1) obtain v vs' where v: "py_index va (i - 1) = Inr v"
    and vs': "emap (\<lambda>i. py_index va (i - 1)) face = Inr vs'" and vs: "vs = v # vs'"
    by (auto split: sum.splits)
  from Cons.prems(2) vs obtain p ps' where p: "perspective_transform cam ar ww wh v = Inr p"
    and ps': "emap (perspective_transform cam ar ww wh) vs' = Inr ps'" and ps: "ps = p # ps'"
    by (auto split: sum.splits)
  have ih: "length (filter (\<lambda>p. p \<noteq> None) ps') \<le> length (surviving_vertices cam va face)"
    using Cons.IH [OF vs' ps'] .
  show ?case
  proof (cases p)
    case None
    then show ?thesis using ih by (simp add: ps surviving_vertices_def)
  next
    case (Some q)
    with p perspective_transform_Some_in_range
    have "near_plane cam < snd (snd v) - snd (snd (cam_position cam)) \<and>
          snd (snd v) - snd (snd (cam_position cam)) \<le> far_plane cam" by blast
    then show ?thesis using ih v Some by (simp add: ps surviving_vertices_def)
  qed
qed

lemma wire_face_culled:
  assumes "length (surviving_vertices cam vertex_array face) < 3"
  shows "fst (wire_face self cam aspect_ratio window_width window_height vertex_array face) = []"
proof (cases "emap (\<lambda>vertex_index.
                 ebind (py_index vertex_array (vertex_index - 1))
                       (perspective_transform cam aspect_ratio window_width window_height))
              face")
  case (Inl e)
  then show ?thesis by (simp add: wire_face_def)
next
  case (Inr ps)
  from emap_ebind_split [OF Inr] obtain vs where
    "emap (\<lambda>i. py_index vertex_array (i - 1)) face = Inr vs"
    "emap (perspective_transform cam aspect_ratio window_width window_height) vs = Inr ps"
    by blast
  from projected_le_surviving [OF this] assms
  have "length (filter (\<lambda>p. p \<noteq> None) ps) < 3" by simp
  then show ?thesis using Inr by (simp add: wire_face_def Let_def)
qed

lemma fill_face_culled:
  assumes "length (surviving_vertices cam vertex_array face) < 3"
  shows "fst (fill_face self cam ambient lights aspect_ratio window_width window_height
                vertex_array face_normals (index, face)) = []"
proof (cases "emap (\<lambda>i. py_index vertex_array (i - 1)) face")
  case (Inl e)
  then show ?thesis by (simp add: fill_face_def)
next
  case vs: (Inr vs)
  show ?thesis
  proof (cases "emap (perspective_transform cam aspect_ratio window_width window_height) vs")
    case (Inl e)
    then show ?thesis using vs by (simp add: fill_face_def)
  next
    case (Inr ps)
    from projected_le_surviving [OF vs Inr] assms
    have "length (filter (\<lambda>p. p \<noteq> None) ps) < 3" by simp
    then show ?thesis using vs Inr by (simp add: fill_face_def Let_def)
  qed
qed

lemma draw_wireframe_culled:
  assumes "\<forall>face \<in> set (face_array self). length (surviving_vertices cam vertex_array face) < 3"
  shows "fst (draw_wireframe self cam aspect_ratio window_width window_height vertex_array) = []"
  unfolding draw_wireframe_def
  by (rule run_loop_no_calls) (use assms wire_face_culled in blast)

lemma draw_faces_culled:
  assumes "\<forall>face \<in> set (face_array self). length (surviving_vertices cam vertex_array face) < 3"
  shows "fst (draw_faces self cam ambient lights aspect_ratio window_width window_height
                vertex_array) = []"
proof (cases "precompute_normals self")
  case (Inl e)
  then show ?thesis by (simp add: draw_faces_def)
next
  case ns: (Inr ns)
  show ?thesis
  proof (cases "emap (\<lambda>item. ebind (face_sort_key cam vertex_array item) (\<lambda>k. Inr (k, item)))
                  (enumerate 0 (face_array self))")
    case (Inl e)
    then show ?thesis using ns by (simp add: draw_faces_def)
  next
    case (Inr keyed)
    have "fst (run_loop (fill_face self cam ambient lights aspect_ratio window_width
                 window_height vertex_array ns) (map snd (sort_key fst keyed))) = []"
    proof (rule run_loop_no_calls)
      fix item assume "item \<in> set (map snd (sort_key fst keyed))"
      from sorted_faces_are_faces [OF Inr this]
      have "snd item \<in> set (face_array self)" by (metis nth_mem)
      with assms have "length (surviving_vertices cam vertex_array (snd item)) < 3" by blast
      from fill_face_culled [OF this, of self ambient lights aspect_ratio window_width
             window_height ns "fst item"]
      show "fst (fill_face self cam ambient lights aspect_ratio window_width window_height
                   vertex_array ns item) = []" by simp
    qed
    then show ?thesis using ns Inr by (simp add: draw_faces_def Let_def)
  qed
qed

lemma render_culled:
  assumes "\<forall>face \<in> set (face_array self).
             length (surviving_vertices cam (camera_perspective_vertex_array self cam) face) < 3"
  shows "fst (render self cam ambient lights mode window_width window_height) = []"
  using draw_wireframe_culled [OF assms] draw_faces_culled [OF assms]
  by (simp add: render_def Let_def)

text \<open>
  C7. A face of which fewer than three vertices survive projection draws
  nothing, in the loop body of \<^verbatim>\<open>draw_wireframe\<close> and in the loop body of
  \<^verbatim>\<open>draw_faces\<close> alike. In particular a face all of whose vertices lie at
  or behind the near plane, or all beyond the far plane, draws nothing; and
  an object all of whose faces have fewer than three surviving vertices in
  camera space makes \<^verbatim>\<open>_render\<close> issue no draw call at all, in either mode.
\<close>

theorem culled_face_not_drawn:
  "(length (surviving_vertices cam vertex_array face) < 3 \<longrightarrow>
      fst (wire_face self cam aspect_ratio window_width window_height vertex_array face) = [] \<and>
      fst (fill_face self cam ambient lights aspect_ratio window_width window_height
             vertex_array face_normals (index, face)) = []) \<and>
   ((\<forall>i \<in> set face. \<forall>v. py_index vertex_array (i - 1) = Inr v \<longrightarrow>
         snd (snd v) - snd (snd (cam_position cam)) \<le> near_plane cam) \<or>
    (\<forall>i \<in> set face. \<forall>v. py_index vertex_array (i - 1) = Inr v \<longrightarrow>
         snd (snd v) - snd (snd (cam_position cam)) > far_plane cam) \<longrightarrow>
      fst (wire_face self cam aspect_ratio window_width window_height vertex_array face) = [] \<and>
      fst (fill_face self cam ambient lights aspect_ratio window_width window_height
             vertex_array face_normals (index, face)) = []) \<and>
   ((\<forall>face \<in> set (face_array self).
        length (surviving_vertices cam (camera_perspective_vertex_array self cam) face) < 3) \<longrightarrow>
      fst (render self cam ambient lights ''wire'' window_width window_height) = [] \<and>
      fst (render self cam ambient lights ''face'' window_width window_height) = [])"
proof (intro conjI impI)
  assume "length (surviving_vertices cam vertex_array face) < 3"
  then show "fst (wire_face self cam aspect_ratio window_width window_height vertex_array face) = []"
    and "fst (fill_face self cam ambient lights aspect_ratio window_width window_height
             vertex_array face_normals (index, face)) = []"
    by (rule wire_face_culled, rule fill_face_culled)
next
  assume out: "(\<forall>i \<in> set face. \<forall>v. py_index vertex_array (i - 1) = Inr v \<longrightarrow>
         snd (snd v) - snd (snd (cam_position cam)) \<le> near_plane cam) \<or>
    (\<forall>i \<in> set face. \<forall>v. py_index vertex_array (i - 1) = Inr v \<longrightarrow>
         snd (snd v) - snd (snd (cam_position cam)) > far_plane cam)"
  have "surviving_vertices cam vertex_array face = []"
    unfolding surviving_vertices_def filter_empty_conv
  proof
    fix i assume i: "i \<in> set face"
    show "\<not> (case py_index vertex_array (i - 1) of
                Inl e \<Rightarrow> False
              | Inr v \<Rightarrow> near_plane cam < snd (snd v) - snd (snd (cam_position cam)) \<and>
                         snd (snd v) - snd (snd (cam_position cam)) \<le> far_plane cam)"
      using out i by (cases "py_index vertex_array (i - 1)") fastforce+
  qed
  then have few: "length (surviving_vertices cam vertex_array face) < 3" by simp
  show "fst (wire_face self cam aspect_ratio window_width window_height vertex_array face) = []"
    using few by (rule wire_face_culled)
  show "fst (fill_face self cam ambient lights aspect_ratio window_width window_height
             vertex_array face_normals (index, face)) = []"
    using few by (rule fill_face_culled)
next
  assume all: "\<forall>face \<in> set (face_array self).
        length (surviving_vertices cam (camera_perspective_vertex_array self cam) face) < 3"
  show "fst (render self cam ambient lights ''wire'' window_width window_height) = []"
    using all by (rule render_culled)
  show "fst (render self cam ambient lights ''face'' window_width window_height) = []"
    using all by (rule render_culled)
qed

theorem culled_face_not_drawn_witness:
  "length (surviving_vertices demo_camera
             (camera_perspective_vertex_array far_triangle demo_camera) [1, 2, 3]) < 3 \<and>
   fst (wire_face far_triangle demo_camera (4 / 3) 800 600
          (camera_perspective_vertex_array far_triangle demo_camera) [1, 2, 3]) = [] \<and>
   fst (fill_face far_triangle demo_camera (25, 25, 25) [] (4 / 3) 800 600
          (camera_perspective_vertex_array far_triangle demo_camera) [(0, -1, 0)]
          (0, [1, 2, 3])) = [] \<and>
   fst (render far_triangle demo_camera (25, 25, 25) [] ''wire'' 800 600) = [] \<and>
   fst (render far_triangle demo_camera (25, 25, 25) [] ''face'' 800 600) = []"
proof -
  have va: "camera_perspective_vertex_array far_triangle demo_camera =
              [(0, 0, 2000), (1, 0, 2000), (0, 0, 2001), (-1, 0, 1999)]"
    by (simp add: unrotated_camera_space demo_camera_def far_triangle_def)
  have few: "length (surviving_vertices demo_camera
               (camera_perspective_vertex_array far_triangle demo_camera) [1, 2, 3]) < 3"
    unfolding va by (simp add: surviving_vertices_def py_index_def demo_camera_def)
  have fa: "face_array far_triangle = [[1, 2, 3]]"
    by (simp add: far_triangle_def slanted_triangle_def)
  from few fa have all: "\<forall>face \<in> set (face_array far_triangle).
      length (surviving_vertices demo_camera
                (camera_perspective_vertex_array far_triangle demo_camera) face) < 3"
    by simp
  from culled_face_not_drawn
         [of demo_camera "camera_perspective_vertex_array far_triangle demo_camera" "[1, 2, 3]"
             far_triangle "4 / 3" 800 600 "(25, 25, 25)" "[]" "[(0, -1, 0)]" 0]
       few all
  show ?thesis by blast
qed

subsection \<open>Object order of a render\<close>

lemma sorted_uminus_descending:
  fixes xs :: "real list"
  shows "sorted (map uminus xs) = sorted_wrt (\<lambda>a b. a \<ge> b) xs"
  by (induction xs) auto

lemma sort_head_is_Min:
  fixes xs :: "real list"
  assumes "sort xs = d # ds"
  shows "d = Min (set xs)"
proof -
  have s: "sorted (d # ds)" using assms sorted_sort by metis
  have e: "set xs = set (d # ds)" using assms set_sort by metis
  have "Min (set (d # ds)) = d"
    by (rule Min_eqI) (use s in auto)
  with e show ?thesis by simp
qed

lemma rotate_length:
  "length (rotate_x a vs p) = length vs"
  "length (rotate_y a vs p) = length vs"
  "length (rotate_z a vs p) = length vs"
  by (simp_all add: rotate_x_def rotate_y_def rotate_z_def Let_def)

lemma camera_step_length: "length (camera_step cam vs step) = length vs"
  by (simp add: camera_step_def rotate_length split: prod.splits)

lemma foldl_camera_step_length: "length (foldl (camera_step cam) vs steps) = length vs"
  by (induction steps arbitrary: vs) (simp_all add: camera_step_length)

lemma camera_perspective_length:
  "length (camera_perspective_vertex_array self cam) = length (translated_vertex_array self)"
  by (simp add: camera_perspective_vertex_array_def foldl_camera_step_length)

lemma get_distance_to_camera_total:
  assumes "translated_vertex_array self \<noteq> []"
  shows "\<exists>d. get_distance_to_camera self cam = Inr d"
proof -
  let ?ds = "map (vertex_distance (cam_position cam)) (camera_perspective_vertex_array self cam)"
  have "length (sort ?ds) = length (translated_vertex_array self)"
    by (simp add: camera_perspective_length)
  with assms have "sort ?ds \<noteq> []" by (metis length_0_conv)
  then obtain d rest where "sort ?ds = d # rest" by (cases "sort ?ds") auto
  then show ?thesis by (simp add: get_distance_to_camera_def Let_def)
qed

lemma get_distance_to_camera_nearest:
  assumes "get_distance_to_camera self cam = Inr d"
  shows "d = Min (vertex_distance (cam_position cam) `
                    set (camera_perspective_vertex_array self cam))"
proof -
  let ?ds = "map (vertex_distance (cam_position cam)) (camera_perspective_vertex_array self cam)"
  from assms obtain rest where "sort ?ds = d # rest"
    by (auto simp add: get_distance_to_camera_def Let_def split: list.splits)
  from sort_head_is_Min [OF this] show ?thesis by simp
qed

lemma sorted_distances_props:
  assumes "sorted_distances scene cam = Inr ds"
  shows "mset (map fst ds) = mset (object_memory scene)"
    and "sorted_wrt (\<lambda>a b. a \<ge> b) (map snd ds)"
    and "\<forall>(obj, d) \<in> set ds. get_distance_to_camera obj cam = Inr d"
proof -
  from assms obtain raw where
    raw: "emap (\<lambda>obj. ebind (get_distance_to_camera obj cam) (\<lambda>d. Inr (obj, d)))
            (object_memory scene) = Inr raw"
    and ds: "ds = sort_key (\<lambda>x. - snd x) raw"
    by (auto simp add: sorted_distances_def ebind_def split: sum.splits)
  note t = emap_tagged [OF raw]
  have "mset (map fst ds) = mset (map fst raw)" by (simp add: ds)
  with t show "mset (map fst ds) = mset (object_memory scene)" by simp
  have "sorted (map (\<lambda>x. - snd x) ds)" unfolding ds by (rule sorted_sort_key)
  then have "sorted (map uminus (map snd ds))" by (simp add: o_def)
  then show "sorted_wrt (\<lambda>a b. a \<ge> b) (map snd ds)" by (simp only: sorted_uminus_descending)
  have "set ds = set raw" by (simp add: ds)
  with t show "\<forall>(obj, d) \<in> set ds. get_distance_to_camera obj cam = Inr d" by simp
qed

lemma sorted_distances_total:
  assumes "\<forall>obj \<in> set (object_memory scene). translated_vertex_array obj \<noteq> []"
  shows "\<exists>ds. sorted_distances scene cam = Inr ds"
proof -
  have "\<exists>raw. emap (\<lambda>obj. ebind (get_distance_to_camera obj cam) (\<lambda>d. Inr (obj, d)))
            (object_memory scene) = Inr raw"
  proof (rule emap_total)
    fix obj assume "obj \<in> set (object_memory scene)"
    with assms get_distance_to_camera_total obtain d where
      "get_distance_to_camera obj cam = Inr d" by blast
    then show "\<exists>y. ebind (get_distance_to_camera obj cam) (\<lambda>d. Inr (obj, d)) = Inr y"
      by (simp add: ebind_def)
  qed
  then show ?thesis by (auto simp add: sorted_distances_def ebind_def)
qed

lemma sorted_distances_three:
  assumes ds: "sorted_distances scene cam = Inr ds"
      and objs: "mset (object_memory scene) = {#o1, o2, o3#}"
      and d: "get_distance_to_camera o1 cam = Inr d1" "get_distance_to_camera o2 cam = Inr d2"
             "get_distance_to_camera o3 cam = Inr d3"
      and lt: "d1 < d2" "d2 < d3"
  shows "ds = [(o3, d3), (o2, d2), (o1, d1)]"
proof -
  let ?h = "\<lambda>obj. (obj, projr (get_distance_to_camera obj cam))"
  from ds obtain raw where
    raw: "emap (\<lambda>obj. ebind (get_distance_to_camera obj cam) (\<lambda>d. Inr (obj, d)))
            (object_memory scene) = Inr raw"
    and sk: "ds = sort_key (\<lambda>x. - snd x) raw"
    by (auto simp add: sorted_distances_def ebind_def split: sum.splits)
  have rawmap: "raw = map ?h (object_memory scene)"
    using emap_tagged_map [OF raw] .
  have "mset raw = image_mset ?h (mset (object_memory scene))"
    by (subst rawmap) simp
  then have mraw: "mset raw = mset [(o3, d3), (o2, d2), (o1, d1)]"
    by (simp add: objs d)
  then have "set raw = set [(o3, d3), (o2, d2), (o1, d1)]" by (rule mset_eq_setD)
  then have inj: "inj_on (\<lambda>x. - snd x) (set raw)"
    using lt by (auto simp add: inj_on_def)
  have "sort_key (\<lambda>x. - snd x) raw = [(o3, d3), (o2, d2), (o1, d1)]"
    by (rule sort_key_inj_key_eq [OF mraw inj]) (use lt in simp)
  with sk show ?thesis by simp
qed

lemma vertex_distance_euclidean:
  "vertex_distance (cam_position cam) =
     (\<lambda>(x, y, z). case cam_position cam of (cx, cy, cz) \<Rightarrow>
              sqrt ((x - cx)\<^sup>2 + (y - cy)\<^sup>2 + (z - cz)\<^sup>2))"
  by (auto simp add: fun_eq_iff vertex_distance_def Let_def split: prod.splits)

lemma get_distance_to_camera_nearest_vertex:
  assumes "get_distance_to_camera self cam = Inr d"
  shows "d = nearest_vertex_distance cam self"
  using get_distance_to_camera_nearest [OF assms]
  unfolding nearest_vertex_distance_def vertex_distance_euclidean .

lemma get_distance_to_camera_empty:
  assumes "translated_vertex_array self = []"
  shows "get_distance_to_camera self cam = Inl IndexError"
proof -
  have "length (camera_perspective_vertex_array self cam) = 0"
    using assms by (simp add: camera_perspective_length)
  then show ?thesis by (simp add: get_distance_to_camera_def)
qed

lemma get_distance_to_camera_Inl:
  "get_distance_to_camera self cam = Inl e \<Longrightarrow> e = IndexError"
  by (auto simp add: get_distance_to_camera_def Let_def split: list.splits)

lemma emap_Inl_origin: "emap f xs = Inl e \<Longrightarrow> \<exists>x \<in> set xs. f x = Inl e"
proof (induction xs)
  case Nil
  then show ?case by simp
next
  case (Cons x xs)
  then show ?case by (auto split: sum.splits)
qed

lemma emap_Inl_member:
  "x \<in> set xs \<Longrightarrow> f x = Inl e \<Longrightarrow> \<exists>e'. emap f xs = Inl e'"
proof (induction xs)
  case Nil
  then show ?case by simp
next
  case (Cons y ys)
  then show ?case by (cases "f y") (auto split: sum.splits)
qed

lemma sorted_distances_empty_mesh:
  assumes "\<exists>obj \<in> set (object_memory scene). translated_vertex_array obj = []"
  shows "sorted_distances scene cam = Inl IndexError"
proof -
  let ?f = "\<lambda>obj. ebind (get_distance_to_camera obj cam) (\<lambda>d. Inr (obj, d))"
  from assms obtain obj where o: "obj \<in> set (object_memory scene)"
    and e: "translated_vertex_array obj = []" by blast
  have fo: "?f obj = Inl IndexError"
    using get_distance_to_camera_empty [OF e] by (simp add: ebind_def)
  from emap_Inl_member [of obj "object_memory scene" ?f IndexError, OF o fo] obtain err where
    err: "emap ?f (object_memory scene) = Inl err" by blast
  from emap_Inl_origin [OF err] obtain x where "?f x = Inl err" by blast
  then have "get_distance_to_camera x cam = Inl err"
    by (auto simp add: ebind_def split: sum.splits)
  then have "err = IndexError" by (rule get_distance_to_camera_Inl)
  with err show ?thesis by (simp add: sorted_distances_def ebind_def)
qed

text \<open>
  C4. In a scene with an active camera, \<^verbatim>\<open>render_scene\<close> either raises
  \<^verbatim>\<open>IndexError\<close> before anything is rendered, which happens exactly when
  some object of the scene has no vertex, or it computes the list
  \<^verbatim>\<open>distances\<close> and renders the objects in the order of that list. The
  list holds every object of the scene once, paired with what
  \<^verbatim>\<open>get_distance_to_camera\<close> returns for it, and that is the nearest-vertex
  camera distance of the object: the least of the Euclidean distances
  \<^verbatim>\<open>sqrt((x - cx)^2 + (y - cy)^2 + (z - cz)^2)\<close> from the camera position to
  the vertices of its camera-space vertex buffer. Along the list these
  distances are descending. In particular three objects with nearest-vertex
  distances \<^verbatim>\<open>d1 < d2 < d3\<close>, in whatever order the scene holds them, are
  rendered in the order \<^verbatim>\<open>d3, d2, d1\<close>.
\<close>

theorem render_scene_farthest_first:
  assumes cam: "active_camera scene = Some cam"
  shows "if \<exists>obj \<in> set (object_memory scene). translated_vertex_array obj = []
         then render_scene scene mode window_width window_height = ([], Some IndexError)
         else \<exists>ds. sorted_distances scene cam = Inr ds \<and>
           render_scene scene mode window_width window_height =
             run_loop (\<lambda>(obj, distance).
                         render obj cam (ambient_light scene) (light_memory scene) mode
                           window_width window_height) ds \<and>
           mset (map fst ds) = mset (object_memory scene) \<and>
           map snd ds = map (nearest_vertex_distance cam) (map fst ds) \<and>
           sorted_wrt (\<lambda>a b. a \<ge> b) (map (nearest_vertex_distance cam) (map fst ds)) \<and>
           (\<forall>obj \<in> set (object_memory scene).
              get_distance_to_camera obj cam = Inr (nearest_vertex_distance cam obj)) \<and>
           (\<forall>o1 o2 o3.
              mset (object_memory scene) = {#o1, o2, o3#} \<and>
              nearest_vertex_distance cam o1 < nearest_vertex_distance cam o2 \<and>
              nearest_vertex_distance cam o2 < nearest_vertex_distance cam o3 \<longrightarrow>
              map fst ds = [o3, o2, o1])"
proof (cases "\<exists>obj \<in> set (object_memory scene). translated_vertex_array obj = []")
  case True
  from sorted_distances_empty_mesh [OF True]
  have "render_scene scene mode window_width window_height = ([], Some IndexError)"
    by (simp add: render_scene_def cam)
  with True show ?thesis by simp
next
  case False
  then have nonempty: "\<forall>obj \<in> set (object_memory scene). translated_vertex_array obj \<noteq> []"
    by blast
  from sorted_distances_total [OF nonempty] obtain ds where
    ds: "sorted_distances scene cam = Inr ds" by blast
  have r: "render_scene scene mode window_width window_height =
             run_loop (\<lambda>(obj, distance).
                         render obj cam (ambient_light scene) (light_memory scene) mode
                           window_width window_height) ds"
    by (simp add: render_scene_def cam ds)
  note p = sorted_distances_props [OF ds]
  have each: "\<forall>(obj, d) \<in> set ds. d = nearest_vertex_distance cam obj"
    using p(3) get_distance_to_camera_nearest_vertex by fastforce
  then have snd_eq: "map snd ds = map (nearest_vertex_distance cam) (map fst ds)"
    by (induction ds) auto
  have sorted: "sorted_wrt (\<lambda>a b. a \<ge> b) (map (nearest_vertex_distance cam) (map fst ds))"
    using p(2) by (simp only: snd_eq)
  have all: "\<forall>obj \<in> set (object_memory scene).
              get_distance_to_camera obj cam = Inr (nearest_vertex_distance cam obj)"
  proof
    fix obj assume "obj \<in> set (object_memory scene)"
    with nonempty get_distance_to_camera_total obtain d where
      d: "get_distance_to_camera obj cam = Inr d" by blast
    with get_distance_to_camera_nearest_vertex [OF d]
    show "get_distance_to_camera obj cam = Inr (nearest_vertex_distance cam obj)" by simp
  qed
  have three: "\<forall>o1 o2 o3.
              mset (object_memory scene) = {#o1, o2, o3#} \<and>
              nearest_vertex_distance cam o1 < nearest_vertex_distance cam o2 \<and>
              nearest_vertex_distance cam o2 < nearest_vertex_distance cam o3 \<longrightarrow>
              map fst ds = [o3, o2, o1]"
  proof (intro allI impI)
    fix o1 o2 o3
    assume a: "mset (object_memory scene) = {#o1, o2, o3#} \<and>
              nearest_vertex_distance cam o1 < nearest_vertex_distance cam o2 \<and>
              nearest_vertex_distance cam o2 < nearest_vertex_distance cam o3"
    then have m: "mset (object_memory scene) = {#o1, o2, o3#}" by blast
    have "mset (object_memory scene) = mset [o1, o2, o3]" using m by simp
    then have "set (object_memory scene) = set [o1, o2, o3]" by (rule mset_eq_setD)
    then have "set (object_memory scene) = {o1, o2, o3}" by simp
    with all have g: "get_distance_to_camera o1 cam = Inr (nearest_vertex_distance cam o1)"
        "get_distance_to_camera o2 cam = Inr (nearest_vertex_distance cam o2)"
        "get_distance_to_camera o3 cam = Inr (nearest_vertex_distance cam o3)"
      by auto
    from sorted_distances_three [OF ds m g] a show "map fst ds = [o3, o2, o1]" by simp
  qed
  from False ds r p(1) snd_eq sorted all three show ?thesis by auto
qed

lemma wedge_at_constructed:
  "Object_init [] name [(-3, -1, 0), (3, -1, 0), (0, 2, 0)] [[1, 2, 3]]
     (Some (px, py, pz)) None None (Some demo_material) None =
   Inr (wedge_at name (px, py, pz), [wedge_at name (px, py, pz)])"
  by (simp add: Object_init_def center_vertex_array_def update_transformed_vertices_def
        rotate_x_def rotate_y_def rotate_z_def radians_def
        wedge_at_def Let_def)

lemma wedge_at_translated:
  "translated_vertex_array (wedge_at name (px, py, pz)) =
     [(px - 3, py - 1, pz), (px + 3, py - 1, pz), (px, py + 2, pz)]"
  by (simp add: wedge_at_def update_translated_vertices_def)

lemma wedge_at_camera_space:
  "camera_perspective_vertex_array (wedge_at name (px, py, pz)) demo_camera =
     [(px - 3, py - 1, pz), (px + 3, py - 1, pz), (px, py + 2, pz)]"
  by (simp add: unrotated_camera_space demo_camera_def wedge_at_translated)

lemma wedge_distances:
  "get_distance_to_camera (wedge_at ''near'' (0, 0, 4)) demo_camera = Inr (sqrt 20)"
  "get_distance_to_camera (wedge_at ''mid'' (0, 5, 2)) demo_camera = Inr (sqrt 29)"
  "get_distance_to_camera (wedge_at ''far'' (0, 8, 1)) demo_camera = Inr (sqrt 59)"
  unfolding get_distance_to_camera_def wedge_at_camera_space
  by (simp_all add: vertex_distance_def demo_camera_def)

lemma wedge_wire:
  "render (wedge_at ''near'' (0, 0, 4)) demo_camera (25, 25, 25) [] ''wire'' 800 600 =
     ([Polyline [(-600, -200), (600, -200), (0, 400)] (255, 255, 255)], None)"
  "render (wedge_at ''mid'' (0, 5, 2)) demo_camera (25, 25, 25) [] ''wire'' 800 600 =
     ([Polyline [(-1200, 1600), (1200, 1600), (0, 2800)] (255, 255, 255)], None)"
  "render (wedge_at ''far'' (0, 8, 1)) demo_camera (25, 25, 25) [] ''wire'' 800 600 =
     ([Polyline [(-2400, 5600), (2400, 5600), (0, 8000)] (255, 255, 255)], None)"
proof -
  have fovc: "fov demo_camera = 90" by (simp add: demo_camera_def)
  have pt: "\<And>x y z. 1 / 10 < z \<Longrightarrow> z \<le> 1000 \<Longrightarrow>
             perspective_transform demo_camera (4 / 3) 800 600 (x, y, z) =
               Inr (Some (x / z * 800, y / (z * (3 / 4)) * 600))"
    by (simp add: perspective_transform_def Let_def fovc tan_45_radians)
       (simp add: demo_camera_def)
  have vis: "\<And>n p. visible (wedge_at n p)" "\<And>n p. face_array (wedge_at n p) = [[1, 2, 3]]"
      "\<And>n p. obj_material (wedge_at n p) = demo_material"
    by (simp_all add: wedge_at_def update_translated_vertices_def)
  show "render (wedge_at ''near'' (0, 0, 4)) demo_camera (25, 25, 25) [] ''wire'' 800 600 =
     ([Polyline [(-600, -200), (600, -200), (0, 400)] (255, 255, 255)], None)"
    by (simp add: render_def vis wedge_at_camera_space draw_wireframe_def wire_face_def
          py_index_def ebind_def pt demo_material_def Let_def)
  show "render (wedge_at ''mid'' (0, 5, 2)) demo_camera (25, 25, 25) [] ''wire'' 800 600 =
     ([Polyline [(-1200, 1600), (1200, 1600), (0, 2800)] (255, 255, 255)], None)"
    by (simp add: render_def vis wedge_at_camera_space draw_wireframe_def wire_face_def
          py_index_def ebind_def pt demo_material_def Let_def)
  show "render (wedge_at ''far'' (0, 8, 1)) demo_camera (25, 25, 25) [] ''wire'' 800 600 =
     ([Polyline [(-2400, 5600), (2400, 5600), (0, 8000)] (255, 255, 255)], None)"
    by (simp add: render_def vis wedge_at_camera_space draw_wireframe_def wire_face_def
          py_index_def ebind_def pt demo_material_def Let_def)
qed


theorem render_scene_farthest_first_witness:
  "sorted_distances three_wedge_scene demo_camera =
     Inr [(wedge_at ''far'' (0, 8, 1), sqrt 59), (wedge_at ''mid'' (0, 5, 2), sqrt 29),
          (wedge_at ''near'' (0, 0, 4), sqrt 20)] \<and>
   nearest_vertex_distance demo_camera (wedge_at ''near'' (0, 0, 4)) = sqrt 20 \<and>
   nearest_vertex_distance demo_camera (wedge_at ''mid'' (0, 5, 2)) = sqrt 29 \<and>
   nearest_vertex_distance demo_camera (wedge_at ''far'' (0, 8, 1)) = sqrt 59 \<and>
   render_scene three_wedge_scene ''wire'' 800 600 =
     ([Polyline [(-2400, 5600), (2400, 5600), (0, 8000)] (255, 255, 255),
       Polyline [(-1200, 1600), (1200, 1600), (0, 2800)] (255, 255, 255),
       Polyline [(-600, -200), (600, -200), (0, 400)] (255, 255, 255)], None)"
proof -
  let ?near = "wedge_at ''near'' (0, 0, 4)"
  let ?mid = "wedge_at ''mid'' (0, 5, 2)"
  let ?far = "wedge_at ''far'' (0, 8, 1)"
  have cam: "active_camera three_wedge_scene = Some demo_camera"
    by (simp add: three_wedge_scene_def)
  have om: "object_memory three_wedge_scene = [?mid, ?near, ?far]"
    by (simp add: three_wedge_scene_def)
  have full: "\<not> (\<exists>obj \<in> set (object_memory three_wedge_scene). translated_vertex_array obj = [])"
    by (simp add: om wedge_at_translated)
  have ms: "mset (object_memory three_wedge_scene) = {#?near, ?mid, ?far#}"
    by (simp add: om)
  from render_scene_farthest_first [OF cam, of "''wire''" 800 600] full
  obtain ds where
    ds: "sorted_distances three_wedge_scene demo_camera = Inr ds"
    and r: "render_scene three_wedge_scene ''wire'' 800 600 =
             run_loop (\<lambda>(obj, distance).
                         render obj demo_camera (ambient_light three_wedge_scene)
                           (light_memory three_wedge_scene) ''wire'' 800 600) ds"
    and sn: "map snd ds = map (nearest_vertex_distance demo_camera) (map fst ds)"
    and all: "\<forall>obj \<in> set (object_memory three_wedge_scene).
              get_distance_to_camera obj demo_camera =
                Inr (nearest_vertex_distance demo_camera obj)"
    and three: "\<forall>o1 o2 o3.
              mset (object_memory three_wedge_scene) = {#o1, o2, o3#} \<and>
              nearest_vertex_distance demo_camera o1 < nearest_vertex_distance demo_camera o2 \<and>
              nearest_vertex_distance demo_camera o2 < nearest_vertex_distance demo_camera o3 \<longrightarrow>
              map fst ds = [o3, o2, o1]"
    by (auto split: if_splits)
  have n: "nearest_vertex_distance demo_camera ?near = sqrt 20"
          "nearest_vertex_distance demo_camera ?mid = sqrt 29"
          "nearest_vertex_distance demo_camera ?far = sqrt 59"
    using all wedge_distances by (simp_all add: om)
  have "nearest_vertex_distance demo_camera ?near < nearest_vertex_distance demo_camera ?mid \<and>
        nearest_vertex_distance demo_camera ?mid < nearest_vertex_distance demo_camera ?far"
    by (simp add: n)
  with three ms have f: "map fst ds = [?far, ?mid, ?near]" by blast
  with sn n have s: "map snd ds = [sqrt 59, sqrt 29, sqrt 20]" by simp
  have dsv: "ds = [(?far, sqrt 59), (?mid, sqrt 29), (?near, sqrt 20)]"
    using f s by (auto simp add: map_eq_Cons_conv)
  have amb: "ambient_light three_wedge_scene = (25, 25, 25)"
       "light_memory three_wedge_scene = []"
    by (simp_all add: three_wedge_scene_def)
  have "render_scene three_wedge_scene ''wire'' 800 600 =
     ([Polyline [(-2400, 5600), (2400, 5600), (0, 8000)] (255, 255, 255),
       Polyline [(-1200, 1600), (1200, 1600), (0, 2800)] (255, 255, 255),
       Polyline [(-600, -200), (600, -200), (0, 400)] (255, 255, 255)], None)"
    unfolding r dsv amb by (simp add: wedge_wire)
  with ds dsv n show ?thesis by simp
qed

subsection \<open>The normals used for lighting\<close>
















end
